theory Spec2Isabelle
  imports Complex_Main "HOL-Library.AList"
begin

section \<open>Common data model (src/src/types.py)\<close>

text \<open>
  Python floats are modelled as real numbers and Python strings as character lists.
  Rounding is not modelled: where the program compares a computed float with a
  threshold, a value that is exactly on the threshold here may fall on either side of
  it there.
  An exception raised by a collaborator is a value of type \<open>error\<close>; a computation that
  may raise returns \<open>error + 'a\<close> with \<open>Inl\<close> for the exception.
\<close>

datatype error = IndexError | KeyError | GraphQueryFailure string

text \<open>The values of a \<open>Dict[str, Any]\<close>.\<close>

datatype meta_value =
    MFloat real
  | MInt int
  | MStr string
  | MList "meta_value list"
  | MDict "(string \<times> meta_value) list"

type_synonym py_dict = "(string \<times> meta_value) list"

record CodeChunk =
  chunk_id :: string
  chunk_file_path :: string
  content :: string
  start_line :: int
  end_line :: int
  language :: string
  chunk_type :: string
  chunk_metadata :: py_dict

record SearchResult =
  chunk :: CodeChunk
  score :: real
  rank :: int
  search_type :: string
  metadata :: py_dict

record GraphNode =
  node_id :: string
  node_type :: string
  node_properties :: py_dict
  node_file_path :: string
  line_number :: int

record GraphEdge =
  source_id :: string
  target_id :: string
  relationship_type :: string
  edge_properties :: py_dict

record GraphResult =
  nodes :: "GraphNode list"
  edges :: "GraphEdge list"
  result_metadata :: py_dict

section \<open>Python built-ins used by the sources\<close>

text \<open>\<open>xs[:k]\<close>: a negative bound counts from the end of the list.\<close>

definition py_take :: "int \<Rightarrow> 'a list \<Rightarrow> 'a list" where
  "py_take k xs =
     (if 0 \<le> k then take (nat k) xs else take (nat (int (length xs) + k)) xs)"

text \<open>
  \<open>sorted(xs, key=f, reverse=True)\<close> and \<open>xs.sort(key=f, reverse=True)\<close>: descending by
  key, elements with equal keys keep their original order.
\<close>

definition sort_desc :: "('a \<Rightarrow> real) \<Rightarrow> 'a list \<Rightarrow> 'a list" where
  "sort_desc f xs = sort_key (\<lambda>x. - f x) xs"

text \<open>\<open>enumerate(xs)\<close> with the 1-based rank \<open>i + 1\<close> written into each result.\<close>

fun assign_ranks :: "int \<Rightarrow> SearchResult list \<Rightarrow> SearchResult list" where
  "assign_ranks i [] = []"
| "assign_ranks i (r # rs) = r\<lparr>rank := i + 1\<rparr> # assign_ranks (i + 1) rs"

text \<open>\<open>d[k] = v\<close> on an insertion-ordered dict: replace in place or append.\<close>

definition dict_set :: "'k \<Rightarrow> 'v \<Rightarrow> ('k \<times> 'v) list \<Rightarrow> ('k \<times> 'v) list" where
  "dict_set k v d = AList.update k v d"

text \<open>
  Strings: the ASCII part of \<open>str.lower\<close>, \<open>str.isspace\<close>, \<open>str.strip\<close>,
  \<open>str.lstrip\<close>, \<open>str.startswith\<close>, \<open>sub in s\<close> and \<open>s.split(sep)\<close>.
\<close>

definition char_lower :: "char \<Rightarrow> char" where
  "char_lower c =
     (let n = (of_char c :: nat) in if 65 \<le> n \<and> n \<le> 90 then char_of (n + 32) else c)"

definition str_lower :: "string \<Rightarrow> string" where
  "str_lower s = map char_lower s"

definition is_space :: "char \<Rightarrow> bool" where
  "is_space c = (let n = (of_char c :: nat) in (9 \<le> n \<and> n \<le> 13) \<or> (28 \<le> n \<and> n \<le> 32))"






section \<open>Graph reranker (src/src/search/rerank_service.py)\<close>

text \<open>
  The reranker holds a graph client (\<open>JsonGraphClient\<close> or \<open>Neo4jClient\<close>, whichever
  is passed in) and the threshold read from \<open>settings.rerank_threshold\<close>. The client is
  the function \<open>find_related_chunks(chunk_id, relationship_types, max_hops)\<close>, which may
  raise.
\<close>

type_synonym graph_client = "string \<Rightarrow> string list \<Rightarrow> int \<Rightarrow> error + GraphResult"

record GraphReranker =
  neo4j_client :: graph_client
  threshold :: real

text \<open>\<open>Settings.rerank_threshold\<close>: \<open>Field(default=0.5)\<close>.\<close>

definition rerank_threshold_default :: real where
  "rerank_threshold_default = 0.5"





text \<open>
  The two recursive depth computations. Each call either returns at once
  (\<open>current_depth > 10\<close>, or no outgoing edge of the wanted type) or recurses with
  \<open>current_depth + 1\<close> into every target; there is no visited set.
\<close>

function calculate_function_call_depth :: "string \<Rightarrow> GraphResult \<Rightarrow> nat \<Rightarrow> nat" where
  "calculate_function_call_depth function_id graph_result current_depth =
     (if current_depth > 10 then current_depth
      else
        let called_functions =
              map target_id
                (filter (\<lambda>edge. source_id edge = function_id \<and> relationship_type edge = ''CALLS'')
                   (edges graph_result))
        in if called_functions = [] then current_depth
           else
             fold (\<lambda>called_func max_depth.
                     max max_depth
                       (calculate_function_call_depth called_func graph_result (current_depth + 1)))
               called_functions current_depth)"
  by pat_completeness auto
termination
  by (relation "measure (\<lambda>(function_id, graph_result, current_depth). 11 - current_depth)") auto

function calculate_class_inheritance_depth :: "string \<Rightarrow> GraphResult \<Rightarrow> nat \<Rightarrow> nat" where
  "calculate_class_inheritance_depth class_id graph_result current_depth =
     (if current_depth > 10 then current_depth
      else
        let parent_classes =
              map target_id
                (filter (\<lambda>edge. source_id edge = class_id \<and> relationship_type edge = ''INHERITS_FROM'')
                   (edges graph_result))
        in if parent_classes = [] then current_depth
           else
             fold (\<lambda>parent_class max_depth.
                     max max_depth
                       (calculate_class_inheritance_depth parent_class graph_result (current_depth + 1)))
               parent_classes current_depth)"
  by pat_completeness auto
termination
  by (relation "measure (\<lambda>(class_id, graph_result, current_depth). 11 - current_depth)") auto

declare calculate_function_call_depth.simps [simp del]
declare calculate_class_inheritance_depth.simps [simp del]











text \<open>
  \<open>_calculate_graph_score\<close>: the whole body is inside \<open>try\<close>; any exception is logged
  and the function returns \<open>0.0\<close>. The relationship types and the hop bound are the
  literals of the source.
\<close>

definition rerank_relationship_types :: "string list" where
  "rerank_relationship_types = [''CALLS'', ''DEFINED_IN'', ''CONTAINS'', ''HAS_METHOD'']"


definition combine_scores :: "GraphReranker \<Rightarrow> real \<Rightarrow> real \<Rightarrow> real" where
  "combine_scores self original_score graph_score =
     (let (graph_weight, original_weight) =
            (if graph_score > threshold self then (0.4, 0.6) else (0.2, 0.8))
      in original_score * original_weight + graph_score * graph_weight)"





section \<open>JSON graph store (src/src/graph/json_graph_client.py)\<close>

text \<open>
  \<open>self.data\<close>: the insertion-ordered dict \<open>nodes\<close> from node id to node data and the
  list \<open>edges\<close>. The \<open>metadata\<close> entry holds only timestamps written by \<open>_save_data\<close>
  and is left out, as is the JSON file itself.
\<close>

record JsonGraphClient =
  data_nodes :: "(string \<times> GraphNode) list"
  data_edges :: "GraphEdge list"

definition initialize_data :: JsonGraphClient where
  "initialize_data = \<lparr>data_nodes = [], data_edges = []\<rparr>"

text \<open>\<open>d.get(k, default)\<close> and \<open>d.update(other)\<close>.\<close>

definition dict_get :: "('k \<times> 'v) list \<Rightarrow> 'k \<Rightarrow> 'v \<Rightarrow> 'v" where
  "dict_get d k dflt = (case map_of d k of None \<Rightarrow> dflt | Some v \<Rightarrow> v)"

definition dict_update :: "('k \<times> 'v) list \<Rightarrow> ('k \<times> 'v) list \<Rightarrow> ('k \<times> 'v) list" where
  "dict_update d other = fold (\<lambda>(k, v) acc. dict_set k v acc) other d"

definition create_file_node ::
  "JsonGraphClient \<Rightarrow> string \<Rightarrow> string \<Rightarrow> string \<Rightarrow> py_dict option \<Rightarrow> JsonGraphClient \<times> GraphNode" where
  "create_file_node self file_path lang file_type meta =
     (let nid = file_path;
          meta = (case meta of None \<Rightarrow> [] | Some m \<Rightarrow> m);
          node_data =
            \<lparr>node_id = nid, node_type = ''File'',
             node_properties =
               [(''path'', MStr file_path), (''language'', MStr lang),
                (''file_type'', MStr file_type),
                (''file_size'', dict_get meta ''file_size'' (MInt 0)),
                (''created_at'', dict_get meta ''created_at'' (MStr [])),
                (''updated_at'', dict_get meta ''updated_at'' (MStr []))],
             node_file_path = file_path, line_number = 0\<rparr>
      in (self\<lparr>data_nodes := dict_set nid node_data (data_nodes self)\<rparr>, node_data))"

definition create_chunk_node :: "JsonGraphClient \<Rightarrow> CodeChunk \<Rightarrow> JsonGraphClient \<times> GraphNode" where
  "create_chunk_node self c =
     (let meta = chunk_metadata c;
          node_data =
            \<lparr>node_id = chunk_id c, node_type = ''Chunk'',
             node_properties =
               [(''content'', MStr (content c)), (''start_line'', MInt (start_line c)),
                (''end_line'', MInt (end_line c)), (''language'', MStr (language c)),
                (''chunk_type'', MStr (chunk_type c)),
                (''file_size'', dict_get meta ''file_size'' (MInt 0)),
                (''chunk_index'', dict_get meta ''chunk_index'' (MInt 0)),
                (''ast_node_type'', dict_get meta ''ast_node_type'' (MStr []))],
             node_file_path = chunk_file_path c, line_number = start_line c\<rparr>
      in (self\<lparr>data_nodes := dict_set (chunk_id c) node_data (data_nodes self)\<rparr>, node_data))"

definition create_function_node ::
  "JsonGraphClient \<Rightarrow> string \<Rightarrow> string \<Rightarrow> string \<Rightarrow> int \<Rightarrow> py_dict \<Rightarrow> JsonGraphClient \<times> GraphNode" where
  "create_function_node self name qualified_name file_path line meta =
     (let node_data =
            \<lparr>node_id = qualified_name, node_type = ''Function'',
             node_properties =
               [(''name'', MStr name), (''qualified_name'', MStr qualified_name),
                (''file_path'', MStr file_path), (''line_number'', MInt line),
                (''created_at'', dict_get meta ''created_at'' (MStr [])),
                (''updated_at'', dict_get meta ''updated_at'' (MStr []))],
             node_file_path = file_path, line_number = line\<rparr>
      in (self\<lparr>data_nodes := dict_set qualified_name node_data (data_nodes self)\<rparr>, node_data))"

definition create_class_node ::
  "JsonGraphClient \<Rightarrow> string \<Rightarrow> string \<Rightarrow> string \<Rightarrow> int \<Rightarrow> py_dict \<Rightarrow> JsonGraphClient \<times> GraphNode" where
  "create_class_node self name qualified_name file_path line meta =
     (let node_data =
            \<lparr>node_id = qualified_name, node_type = ''Class'',
             node_properties =
               [(''name'', MStr name), (''qualified_name'', MStr qualified_name),
                (''file_path'', MStr file_path), (''line_number'', MInt line),
                (''created_at'', dict_get meta ''created_at'' (MStr [])),
                (''updated_at'', dict_get meta ''updated_at'' (MStr []))],
             node_file_path = file_path, line_number = line\<rparr>
      in (self\<lparr>data_nodes := dict_set qualified_name node_data (data_nodes self)\<rparr>, node_data))"

text \<open>
  \<open>create_relationship\<close>: the first stored edge with the same source, target and type
  has the new properties merged into it; only when there is none is an edge appended.
\<close>

definition edge_key :: "GraphEdge \<Rightarrow> string \<times> string \<times> string" where
  "edge_key e = (source_id e, target_id e, relationship_type e)"

fun update_existing ::
  "string \<times> string \<times> string \<Rightarrow> py_dict \<Rightarrow> GraphEdge list \<Rightarrow> (GraphEdge list \<times> GraphEdge) option" where
  "update_existing k props [] = None"
| "update_existing k props (e # es) =
     (if edge_key e = k
      then (let e' = e\<lparr>edge_properties := dict_update (edge_properties e) props\<rparr>
            in Some (e' # es, e'))
      else (case update_existing k props es of
              None \<Rightarrow> None
            | Some (es', e') \<Rightarrow> Some (e # es', e')))"

definition create_relationship ::
  "JsonGraphClient \<Rightarrow> string \<Rightarrow> string \<Rightarrow> string \<Rightarrow> py_dict option \<Rightarrow> JsonGraphClient \<times> GraphEdge" where
  "create_relationship self src tgt rel_type props =
     (let props = (case props of None \<Rightarrow> [] | Some p \<Rightarrow> p)
      in case update_existing (src, tgt, rel_type) props (data_edges self) of
           Some (es', e') \<Rightarrow> (self\<lparr>data_edges := es'\<rparr>, e')
         | None \<Rightarrow>
             (let edge_data = \<lparr>source_id = src, target_id = tgt, relationship_type = rel_type,
                               edge_properties = props\<rparr>
              in (self\<lparr>data_edges := data_edges self @ [edge_data]\<rparr>, edge_data)))"

text \<open>
  \<open>find_related_chunks\<close>: one scan over the stored edges; an edge is taken when its type
  is among the requested ones and it starts or ends at \<open>chunk_id\<close>. \<open>max_hops\<close> is only
  copied into the metadata of the result. Duplicates are removed keeping the first
  occurrence.
\<close>

fun unique_by :: "('a \<Rightarrow> 'k) \<Rightarrow> 'k list \<Rightarrow> 'a list \<Rightarrow> 'a list" where
  "unique_by key seen [] = []"
| "unique_by key seen (x # xs) =
     (if key x \<in> set seen then unique_by key seen xs
      else x # unique_by key (key x # seen) xs)"

definition default_relationship_types :: "string list" where
  "default_relationship_types =
     [''CALLS'', ''DEFINED_IN'', ''CONTAINS'', ''HAS_METHOD'', ''INHERITS_FROM'']"

definition find_related_chunks ::
  "JsonGraphClient \<Rightarrow> string \<Rightarrow> string list option \<Rightarrow> int \<Rightarrow> GraphResult" where
  "find_related_chunks self cid relationship_types max_hops =
     (let relationship_types =
            (case relationship_types of None \<Rightarrow> default_relationship_types | Some ts \<Rightarrow> ts);
          found_edges =
            filter (\<lambda>edge. relationship_type edge \<in> set relationship_types
                            \<and> (source_id edge = cid \<or> target_id edge = cid))
              (data_edges self);
          found_nodes =
            concat (map (\<lambda>edge. List.map_filter (map_of (data_nodes self))
                                   [source_id edge, target_id edge]) found_edges);
          unique_nodes = unique_by node_id [] found_nodes;
          unique_edges = unique_by edge_key [] found_edges
      in \<lparr>nodes = unique_nodes, edges = unique_edges,
          result_metadata = [(''query_type'', MStr ''related_chunks''), (''max_hops'', MInt max_hops)]\<rparr>)"

text \<open>The store as the reranker's graph client.\<close>

definition json_graph_client :: "JsonGraphClient \<Rightarrow> graph_client" where
  "json_graph_client store cid relationship_types max_hops =
     Inr (find_related_chunks store cid (Some relationship_types) max_hops)"

text \<open>\<open>get_database_stats\<close>: nodes counted by type, relationships counted by type.\<close>

definition count_into :: "string \<Rightarrow> (string \<times> nat) list \<Rightarrow> (string \<times> nat) list" where
  "count_into k counts = dict_set k (dict_get counts k 0 + 1) counts"

definition get_database_stats :: "JsonGraphClient \<Rightarrow> (string \<times> nat) list \<times> (string \<times> nat) list" where
  "get_database_stats self =
     (fold count_into (map (\<lambda>(k, node_data). node_type node_data) (data_nodes self)) [],
      fold count_into (map relationship_type (data_edges self)) [])"

text \<open>An indexing pass is a sequence of calls of the store's creating methods.\<close>

datatype graph_op =
    CreateFileNode string string string "py_dict option"
  | CreateChunkNode CodeChunk
  | CreateFunctionNode string string string int py_dict
  | CreateClassNode string string string int py_dict
  | CreateRelationship string string string "py_dict option"

fun apply_op :: "graph_op \<Rightarrow> JsonGraphClient \<Rightarrow> JsonGraphClient" where
  "apply_op (CreateFileNode p l t m) self = fst (create_file_node self p l t m)"
| "apply_op (CreateChunkNode c) self = fst (create_chunk_node self c)"
| "apply_op (CreateFunctionNode n q p l m) self = fst (create_function_node self n q p l m)"
| "apply_op (CreateClassNode n q p l m) self = fst (create_class_node self n q p l m)"
| "apply_op (CreateRelationship s t ty p) self = fst (create_relationship self s t ty p)"

definition indexing_pass :: "graph_op list \<Rightarrow> JsonGraphClient \<Rightarrow> JsonGraphClient" where
  "indexing_pass ops self = fold apply_op ops self"

text \<open>
  The neighbourhood in the words of the specification: the ids reachable from a node
  within \<open>n\<close> hops along stored edges of the given types, in either direction.
\<close>

definition spec_one_hop :: "JsonGraphClient \<Rightarrow> string list \<Rightarrow> string \<Rightarrow> string list" where
  "spec_one_hop store types i =
     concat (map (\<lambda>edge. if relationship_type edge \<in> set types
                          then (if source_id edge = i then [target_id edge] else [])
                               @ (if target_id edge = i then [source_id edge] else [])
                          else [])
               (data_edges store))"

fun spec_within_hops :: "JsonGraphClient \<Rightarrow> string list \<Rightarrow> nat \<Rightarrow> string \<Rightarrow> string list" where
  "spec_within_hops store types 0 i = [i]"
| "spec_within_hops store types (Suc n) i =
     i # concat (map (spec_within_hops store types n) (spec_one_hop store types i))"


text \<open>What one call writes: the node stored under its id, or the key of the edge.\<close>

fun node_write :: "graph_op \<Rightarrow> (string \<times> GraphNode) option" where
  "node_write (CreateFileNode p l t m) = Some (p, snd (create_file_node initialize_data p l t m))"
| "node_write (CreateChunkNode c) = Some (chunk_id c, snd (create_chunk_node initialize_data c))"
| "node_write (CreateFunctionNode n q p l m) =
     Some (q, snd (create_function_node initialize_data n q p l m))"
| "node_write (CreateClassNode n q p l m) =
     Some (q, snd (create_class_node initialize_data n q p l m))"
| "node_write (CreateRelationship s t ty p) = None"

fun edge_write :: "graph_op \<Rightarrow> (string \<times> string \<times> string) option" where
  "edge_write (CreateRelationship s t ty p) = Some (s, t, ty)"
| "edge_write other = None"

definition add_key :: "'k \<Rightarrow> 'k list \<Rightarrow> 'k list" where
  "add_key k ks = (if k \<in> set ks then ks else ks @ [k])"

definition set_pair :: "'k \<times> 'v \<Rightarrow> ('k \<times> 'v) list \<Rightarrow> ('k \<times> 'v) list" where
  "set_pair w d = dict_set (fst w) (snd w) d"

section \<open>Keyword search and score fusion (src/src/search/hybrid_search.py)\<close>

subsection \<open>BM25Search\<close>

text \<open>
  \<open>self.bm25\<close> is \<open>None\<close> until \<open>index_chunks\<close> has run and afterwards an object of the
  library class \<open>BM25Okapi\<close>; \<open>search\<close> uses only its method \<open>get_scores\<close>, so the index is
  modelled by that function from query tokens to one score per document.
\<close>

record ChunkMeta =
  meta_chunk_id :: string
  meta_file_path :: string
  meta_language :: string
  meta_chunk_type :: string
  meta_start_line :: int
  meta_end_line :: int

record BM25Search =
  bm25_k1 :: real
  bm25_b :: real
  bm25_corpus :: "string list list"
  bm25_index :: "(string list \<Rightarrow> real list) option"
  bm25_chunk_metadata :: "ChunkMeta list"

text \<open>
  \<open>_preprocess_text\<close>: lower-case, replace every character that is neither a word
  character, nor white space, nor a dot by a blank, split at white space, drop tokens
  of length at most one.
\<close>

definition is_word_char :: "char \<Rightarrow> bool" where
  "is_word_char c =
     (let n = (of_char c :: nat)
      in (48 \<le> n \<and> n \<le> 57) \<or> (65 \<le> n \<and> n \<le> 90) \<or> (97 \<le> n \<and> n \<le> 122) \<or> n = 95)"

fun split_when :: "(char \<Rightarrow> bool) \<Rightarrow> string \<Rightarrow> string list" where
  "split_when p [] = [[]]"
| "split_when p (c # cs) =
     (if p c then [] # split_when p cs
      else (case split_when p cs of [] \<Rightarrow> [[c]] | w # ws \<Rightarrow> (c # w) # ws))"

definition py_split :: "string \<Rightarrow> string list" where
  "py_split s = filter (\<lambda>w. w \<noteq> []) (split_when is_space s)"

definition preprocess_text :: "string \<Rightarrow> string list" where
  "preprocess_text text =
     (let lowered = str_lower text;
          cleaned = map (\<lambda>c. if is_word_char c \<or> is_space c \<or> c = CHR ''.'' then c else CHR '' '')
                      lowered;
          tokens = py_split cleaned
      in filter (\<lambda>token. length token > 1) tokens)"

text \<open>
  Modelled from the spec: the scoring of \<open>BM25Okapi\<close> (package \<open>rank_bm25\<close>), which is
  imported by the repository but is not part of its sources. Section 4.2 gives
  \<open>score(t,d) = IDF(t) * (f(t,d) * (k1 + 1)) / (f(t,d) + k1 * (1 - b + b * |d| / avgdl))\<close>
  with \<open>IDF(t) = ln((N - df(t) + 0.5) / (df(t) + 0.5) + 1)\<close>; the score of a document is
  the sum over the query terms.
\<close>

definition doc_frequency :: "string list list \<Rightarrow> string \<Rightarrow> nat" where
  "doc_frequency corpus t = length (filter (\<lambda>d. t \<in> set d) corpus)"

definition avgdl :: "string list list \<Rightarrow> real" where
  "avgdl corpus = real (sum_list (map length corpus)) / real (length corpus)"

definition bm25_idf :: "string list list \<Rightarrow> string \<Rightarrow> real" where
  "bm25_idf corpus t =
     ln ((real (length corpus) - real (doc_frequency corpus t) + 0.5)
           / (real (doc_frequency corpus t) + 0.5) + 1)"

definition bm25_term_score :: "real \<Rightarrow> real \<Rightarrow> string list list \<Rightarrow> string \<Rightarrow> string list \<Rightarrow> real" where
  "bm25_term_score k1 b corpus t d =
     bm25_idf corpus t * (real (count_list d t) * (k1 + 1))
       / (real (count_list d t) + k1 * (1 - b + b * real (length d) / avgdl corpus))"

definition bm25_doc_score :: "real \<Rightarrow> real \<Rightarrow> string list list \<Rightarrow> string list \<Rightarrow> string list \<Rightarrow> real" where
  "bm25_doc_score k1 b corpus query_tokens d =
     sum_list (map (\<lambda>t. bm25_term_score k1 b corpus t d) query_tokens)"

definition BM25Okapi_get_scores :: "real \<Rightarrow> real \<Rightarrow> string list list \<Rightarrow> string list \<Rightarrow> real list" where
  "BM25Okapi_get_scores k1 b corpus query_tokens = map (bm25_doc_score k1 b corpus query_tokens) corpus"

text \<open>\<open>index_chunks\<close>: nothing happens for an empty list; otherwise the index is rebuilt.\<close>

definition chunk_meta_of :: "CodeChunk \<Rightarrow> ChunkMeta" where
  "chunk_meta_of c =
     \<lparr>meta_chunk_id = chunk_id c, meta_file_path = chunk_file_path c, meta_language = language c,
      meta_chunk_type = chunk_type c, meta_start_line = start_line c, meta_end_line = end_line c\<rparr>"

definition BM25Search_index_chunks :: "BM25Search \<Rightarrow> CodeChunk list \<Rightarrow> BM25Search" where
  "BM25Search_index_chunks self chunks =
     (if chunks = [] then self
      else
        let corpus = map (\<lambda>c. preprocess_text (content c)) chunks
        in self\<lparr>bm25_corpus := corpus,
                bm25_chunk_metadata := map chunk_meta_of chunks,
                bm25_index := Some (BM25Okapi_get_scores (bm25_k1 self) (bm25_b self) corpus)\<rparr>)"

text \<open>
  \<open>np.argsort\<close>: the indices in ascending order of score. The order numpy gives to equal
  scores is not fixed; here equal scores keep their index order.
\<close>

definition argsort :: "real list \<Rightarrow> nat list" where
  "argsort scores = map snd (sort_key fst (zip scores [0..<length scores]))"

definition bm25_result :: "ChunkMeta \<Rightarrow> real \<Rightarrow> int \<Rightarrow> SearchResult" where
  "bm25_result m s k =
     \<lparr>chunk = \<lparr>chunk_id = meta_chunk_id m, chunk_file_path = meta_file_path m, content = [],
               start_line = meta_start_line m, end_line = meta_end_line m,
               language = meta_language m, chunk_type = meta_chunk_type m, chunk_metadata = []\<rparr>,
      score = s, rank = k, search_type = ''bm25'', metadata = [(''bm25_score'', MFloat s)]\<rparr>"

text \<open>
  The loop over \<open>enumerate(top_indices)\<close>. \<open>self.chunk_metadata[idx]\<close> raises
  \<open>IndexError\<close> when the index has fewer metadata entries than scores.
\<close>

fun search_loop :: "real list \<Rightarrow> ChunkMeta list \<Rightarrow> int \<Rightarrow> nat list \<Rightarrow> error + SearchResult list" where
  "search_loop bm25_scores metas k [] = Inr []"
| "search_loop bm25_scores metas k (idx # rest) =
     (if bm25_scores ! idx > 0
      then (if idx < length metas
            then (case search_loop bm25_scores metas (k + 1) rest of
                    Inl e \<Rightarrow> Inl e
                  | Inr results \<Rightarrow>
                      Inr (bm25_result (metas ! idx) (bm25_scores ! idx) (k + 1) # results))
            else Inl IndexError)
      else search_loop bm25_scores metas (k + 1) rest)"

definition BM25Search_search :: "BM25Search \<Rightarrow> string \<Rightarrow> int \<Rightarrow> error + SearchResult list" where
  "BM25Search_search self query top_k =
     (case bm25_index self of
        None \<Rightarrow> Inr []
      | Some get_scores \<Rightarrow>
          (let query_tokens = preprocess_text query;
               bm25_scores = get_scores query_tokens;
               top_indices = py_take top_k (rev (argsort bm25_scores))
           in search_loop bm25_scores (bm25_chunk_metadata self) 0 top_indices))"

subsection \<open>HybridSearch\<close>

text \<open>
  The embedding service and the vector store are collaborators: together they are the
  function \<open>hs_vector_backend\<close> from the query and \<open>top_k\<close> to a result list, which may
  raise. The graph client is the same kind of function as in the reranker.
\<close>

record HybridSearch =
  hs_vector_backend :: "string \<Rightarrow> int \<Rightarrow> error + SearchResult list"
  hs_graph_client :: graph_client
  hs_bm25 :: BM25Search
  hs_chunk_cache :: "(string \<times> CodeChunk) list"

definition vector_search :: "HybridSearch \<Rightarrow> string \<Rightarrow> int \<Rightarrow> SearchResult list" where
  "vector_search self query top_k =
     (case hs_vector_backend self query top_k of Inl e \<Rightarrow> [] | Inr vector_results \<Rightarrow> vector_results)"

definition fill_from_cache :: "(string \<times> CodeChunk) list \<Rightarrow> SearchResult \<Rightarrow> SearchResult" where
  "fill_from_cache cache result =
     (case map_of cache (chunk_id (chunk result)) of
        None \<Rightarrow> result
      | Some cached_chunk \<Rightarrow>
          result\<lparr>chunk := (chunk result)\<lparr>content := content cached_chunk,
                                          chunk_metadata := chunk_metadata cached_chunk\<rparr>\<rparr>)"

definition hybrid_bm25_search :: "HybridSearch \<Rightarrow> string \<Rightarrow> int \<Rightarrow> SearchResult list" where
  "hybrid_bm25_search self query top_k =
     (case BM25Search_search (hs_bm25 self) query top_k of
        Inl e \<Rightarrow> []
      | Inr bm25_results \<Rightarrow> map (fill_from_cache (hs_chunk_cache self)) bm25_results)"

text \<open>\<open>_combine_results\<close>.\<close>

definition normalize_scores :: "real list \<Rightarrow> real list" where
  "normalize_scores scores =
     (if scores = [] then []
      else
        let min_score = fold min (tl scores) (hd scores);
            max_score = fold max (tl scores) (hd scores)
        in if max_score = min_score then replicate (length scores) 0.5
           else map (\<lambda>s. (s - min_score) / (max_score - min_score)) scores)"

definition nth_or :: "'a list \<Rightarrow> nat \<Rightarrow> 'a \<Rightarrow> 'a" where
  "nth_or xs i d = (if i < length xs then xs ! i else d)"

record combined_entry =
  entry_chunk :: CodeChunk
  entry_vector_score :: real
  entry_bm25_score :: real
  entry_search_types :: "string list"

fun add_vector_results ::
  "real list \<Rightarrow> nat \<Rightarrow> SearchResult list \<Rightarrow> (string \<times> combined_entry) list
     \<Rightarrow> (string \<times> combined_entry) list" where
  "add_vector_results vector_norm i [] combined_dict = combined_dict"
| "add_vector_results vector_norm i (result # rest) combined_dict =
     add_vector_results vector_norm (i + 1) rest
       (if map_of combined_dict (chunk_id (chunk result)) = None
        then dict_set (chunk_id (chunk result))
               \<lparr>entry_chunk = chunk result, entry_vector_score = nth_or vector_norm i 0,
                entry_bm25_score = 0, entry_search_types = [''vector'']\<rparr> combined_dict
        else combined_dict)"

fun add_bm25_results ::
  "real list \<Rightarrow> nat \<Rightarrow> SearchResult list \<Rightarrow> (string \<times> combined_entry) list
     \<Rightarrow> (string \<times> combined_entry) list" where
  "add_bm25_results bm25_norm i [] combined_dict = combined_dict"
| "add_bm25_results bm25_norm i (result # rest) combined_dict =
     add_bm25_results bm25_norm (i + 1) rest
       (case map_of combined_dict (chunk_id (chunk result)) of
          None \<Rightarrow>
            dict_set (chunk_id (chunk result))
              \<lparr>entry_chunk = chunk result, entry_vector_score = 0,
               entry_bm25_score = nth_or bm25_norm i 0, entry_search_types = [''bm25'']\<rparr>
              combined_dict
        | Some entry \<Rightarrow>
            dict_set (chunk_id (chunk result))
              (entry\<lparr>entry_bm25_score := nth_or bm25_norm i 0,
                     entry_search_types := entry_search_types entry @ [''bm25'']\<rparr>)
              combined_dict)"

definition combined_score :: "real \<Rightarrow> real \<Rightarrow> combined_entry \<Rightarrow> real" where
  "combined_score vector_weight bm25_weight entry =
     entry_vector_score entry * vector_weight + entry_bm25_score entry * bm25_weight"

fun final_results :: "real \<Rightarrow> real \<Rightarrow> int \<Rightarrow> (string \<times> combined_entry) list \<Rightarrow> SearchResult list" where
  "final_results vector_weight bm25_weight k [] = []"
| "final_results vector_weight bm25_weight k ((cid, entry) # rest) =
     \<lparr>chunk = entry_chunk entry, score = combined_score vector_weight bm25_weight entry,
      rank = k + 1, search_type = ''hybrid'',
      metadata = [(''vector_score'', MFloat (entry_vector_score entry)),
                  (''bm25_score'', MFloat (entry_bm25_score entry)),
                  (''search_types'', MList (map MStr (entry_search_types entry)))]\<rparr>
     # final_results vector_weight bm25_weight (k + 1) rest"

definition combine_results ::
  "SearchResult list \<Rightarrow> SearchResult list \<Rightarrow> real \<Rightarrow> real \<Rightarrow> int \<Rightarrow> SearchResult list" where
  "combine_results vector_results bm25_results vector_weight bm25_weight top_k =
     (let vector_norm = normalize_scores (map score vector_results);
          bm25_norm = normalize_scores (map score bm25_results);
          combined_dict = add_bm25_results bm25_norm 0 bm25_results
                            (add_vector_results vector_norm 0 vector_results []);
          sorted_results =
            sort_desc (\<lambda>item. combined_score vector_weight bm25_weight (snd item)) combined_dict
      in final_results vector_weight bm25_weight 0 (py_take top_k sorted_results))"

text \<open>
  \<open>_enhance_with_graph\<close>: the \<open>try\<close> encloses the whole loop, so the first failing
  graph query ends the loop; the results enhanced so far keep their new metadata and
  the same list is returned.
\<close>

definition enhance_relationship_types :: "string list" where
  "enhance_relationship_types = [''CALLS'', ''DEFINED_IN'', ''CONTAINS'']"

definition graph_context :: "GraphResult \<Rightarrow> meta_value" where
  "graph_context graph_result =
     (let related_functions = filter (\<lambda>node. node_type node = ''Function'') (nodes graph_result);
          base = [(''related_nodes'', MInt (int (length (nodes graph_result)))),
                  (''related_edges'', MInt (int (length (edges graph_result))))]
      in MDict (if related_functions \<noteq> []
                then dict_set ''related_functions''
                       (MList (map (\<lambda>node. MDict [(''name'', MStr (node_id node)),
                                                    (''file_path'', MStr (node_file_path node))])
                                 related_functions)) base
                else base))"

fun enhance_loop :: "graph_client \<Rightarrow> SearchResult list \<Rightarrow> SearchResult list" where
  "enhance_loop client [] = []"
| "enhance_loop client (result # rest) =
     (case client (chunk_id (chunk result)) enhance_relationship_types 2 of
        Inl e \<Rightarrow> result # rest
      | Inr graph_result \<Rightarrow>
          result\<lparr>metadata := dict_set ''graph_context'' (graph_context graph_result)
                               (metadata result)\<rparr>
          # enhance_loop client rest)"

definition enhance_with_graph :: "HybridSearch \<Rightarrow> SearchResult list \<Rightarrow> SearchResult list" where
  "enhance_with_graph self results = enhance_loop (hs_graph_client self) results"

definition HybridSearch_search ::
  "HybridSearch \<Rightarrow> string \<Rightarrow> int \<Rightarrow> real \<Rightarrow> real \<Rightarrow> bool \<Rightarrow> SearchResult list" where
  "HybridSearch_search self query top_k vector_weight bm25_weight use_graph =
     (let vector_results = vector_search self query top_k;
          bm25_results = hybrid_bm25_search self query top_k;
          combined_results =
            combine_results vector_results bm25_results vector_weight bm25_weight top_k
      in if use_graph \<and> combined_results \<noteq> [] then enhance_with_graph self combined_results
         else combined_results)"

section \<open>Entity and relationship extractor (src/python/graph/graph_builder.py)\<close>

text \<open>
  \<open>Node.id\<close> is a fresh \<open>uuid4\<close> string; the model draws the ids from a counter, so
  that nodes created one after the other get the ids \<open>n\<close>, \<open>n + 1\<close>, \<dots>
\<close>

record Node =
  uid :: nat
  label :: string
  properties :: "(string \<times> string) list"

record Relationship =
  rel_source :: nat
  rel_target :: nat
  rel_type :: string
  rel_properties :: "(string \<times> string) list"

text \<open>
  Parsing is done by the tree-sitter library. What the extractor reads of a syntax node
  is its text, the lines where it starts and ends and the text of its children in the
  fields \<open>name\<close> and \<open>function\<close>; what it reads of the tree is, for each of the four
  queries, the list of captures \<open>(node, capture name)\<close> in the order the library
  returns them.
\<close>

record TSNode =
  ts_text :: string
  ts_start_line :: nat
  ts_end_line :: nat
  ts_name_field :: "string option"
  ts_function_field :: "string option"

type_synonym capture = "TSNode \<times> string"

record ParsedTree =
  import_captures :: "capture list"
  class_captures :: "capture list"
  function_captures :: "capture list"
  call_captures :: "capture list"

datatype ts_language = PY_LANGUAGE | TS_LANGUAGE

text \<open>
  \<open>_get_language_from_extension\<close>, applied to \<open>Path(file_path).suffix.lower()\<close>.
\<close>

definition get_language_from_extension :: "string \<Rightarrow> ts_language option" where
  "get_language_from_extension ext =
     (if ext = ''.py'' then Some PY_LANGUAGE
      else if ext \<in> set [''.ts'', ''.tsx''] then Some TS_LANGUAGE
      else None)"

record FunctionDefinition =
  fd_name :: string
  fd_id :: nat
  fd_start_line :: nat
  fd_end_line :: nat

text \<open>
  The local variables of \<open>_extract_entities_and_relations\<close>: the two result lists, the
  map from a name to the id and type of its entity, the function definitions with their
  line spans, and the id counter.
\<close>

record ExtractState =
  st_nodes :: "Node list"
  st_relationships :: "Relationship list"
  entity_map :: "string \<rightharpoonup> nat \<times> string"
  function_definitions :: "FunctionDefinition list"
  next_id :: nat

definition strip_chars :: "string \<Rightarrow> string \<Rightarrow> string" where
  "strip_chars cs s =
     rev (dropWhile (\<lambda>c. c \<in> set cs) (rev (dropWhile (\<lambda>c. c \<in> set cs) s)))"

definition mk_relationship :: "nat \<Rightarrow> nat \<Rightarrow> string \<Rightarrow> Relationship" where
  "mk_relationship s t ty = \<lparr>rel_source = s, rel_target = t, rel_type = ty, rel_properties = []\<rparr>"

text \<open>
  Pass 1, imports: one step of the loop over the captures. The argument of \<open>strip\<close> on
  line 130 of the file, \<^verbatim>\<open>"'""\<close>, does not close its string literal; it is read here as
  the two quote characters. The stripped name serves only as the key of the entity map
  and as the \<open>name\<close> property of the Module node.
\<close>

definition import_step :: "Node \<Rightarrow> capture \<Rightarrow> ExtractState \<Rightarrow> ExtractState" where
  "import_step file_node cap st =
     (let name = strip_chars [CHR 0x27, CHR 0x22] (ts_text (fst cap))
      in if entity_map st name = None
         then (let node = \<lparr>uid = next_id st, label = ''Module'', properties = [(''name'', name)]\<rparr>
               in st\<lparr>st_nodes := st_nodes st @ [node],
                      entity_map := (entity_map st)(name \<mapsto> (uid node, ''Module'')),
                      st_relationships := st_relationships st
                                            @ [mk_relationship (uid file_node) (uid node) ''IMPORTS''],
                      next_id := next_id st + 1\<rparr>)
         else st)"

text \<open>
  Pass 1, classes and inheritance: one step of the loop over the captures.
  \<open>current_class_name\<close> is the loop's own variable, carried beside the state;
  \<open>entity_map[current_class_name]\<close> raises \<open>KeyError\<close> for a missing key.
  \<open>file_node.properties["path"]\<close> is read with the empty string for a missing key; the file
  node that \<open>build_graph_for_file\<close> passes always has the key.
\<close>

definition superclass_step :: "string \<Rightarrow> ExtractState \<Rightarrow> ExtractState" where
  "superclass_step superclass_name st =
     (if entity_map st superclass_name = None
      then (let superclass_node = \<lparr>uid = next_id st, label = ''Class'',
                                    properties = [(''name'', superclass_name)]\<rparr>
            in st\<lparr>st_nodes := st_nodes st @ [superclass_node],
                   entity_map := (entity_map st)
                                   (superclass_name \<mapsto> (uid superclass_node, ''Class'')),
                   next_id := next_id st + 1\<rparr>)
      else st)"

definition class_step ::
  "Node \<Rightarrow> capture \<Rightarrow> string option \<times> ExtractState
     \<Rightarrow> error + string option \<times> ExtractState" where
  "class_step file_node cap cs =
     (let node = fst cap; name = snd cap; current_class_name = fst cs; st = snd cs
      in if name = ''class_def'' then Inr (None, st)
         else if name = ''name'' then
           (let class_name = ts_text node;
                class_node = \<lparr>uid = next_id st, label = ''Class'',
                               properties = [(''name'', class_name),
                                             (''file_path'',
                                              dict_get (properties file_node) ''path'' [])]\<rparr>
            in Inr (Some class_name,
                    st\<lparr>st_nodes := st_nodes st @ [class_node],
                        entity_map := (entity_map st)(class_name \<mapsto> (uid class_node, ''Class'')),
                        st_relationships := st_relationships st
                          @ [mk_relationship (uid file_node) (uid class_node) ''CONTAINS''],
                        next_id := next_id st + 1\<rparr>))
         else if name = ''superclass'' \<and> current_class_name \<noteq> None
                   \<and> current_class_name \<noteq> Some []
         then
           (let superclass_name = ts_text node;
                st1 = superclass_step superclass_name st
            in case (entity_map st1 (the current_class_name), entity_map st1 superclass_name) of
                 (Some (sub_id, sub_type), Some (super_id, super_type)) \<Rightarrow>
                   Inr (current_class_name,
                        st1\<lparr>st_relationships := st_relationships st1
                                 @ [mk_relationship sub_id super_id ''INHERITS_FROM'']\<rparr>)
               | other \<Rightarrow> Inl KeyError)
         else Inr (current_class_name, st))"

fun class_loop ::
  "Node \<Rightarrow> capture list \<Rightarrow> string option \<times> ExtractState \<Rightarrow> error + ExtractState" where
  "class_loop file_node [] cs = Inr (snd cs)"
| "class_loop file_node (cap # rest) cs =
     (case class_step file_node cap cs of
        Inl e \<Rightarrow> Inl e
      | Inr cs' \<Rightarrow> class_loop file_node rest cs')"

text \<open>Pass 1, functions: one step of the loop.\<close>

definition function_step :: "Node \<Rightarrow> capture \<Rightarrow> ExtractState \<Rightarrow> ExtractState" where
  "function_step file_node cap st =
     (case ts_name_field (fst cap) of
        None \<Rightarrow> st
      | Some func_name \<Rightarrow>
          (let func_node = \<lparr>uid = next_id st, label = ''Function'',
                             properties = [(''name'', func_name),
                                           (''file_path'', dict_get (properties file_node) ''path'' [])]\<rparr>
           in st\<lparr>st_nodes := st_nodes st @ [func_node],
                  entity_map := (entity_map st)(func_name \<mapsto> (uid func_node, ''Function'')),
                  st_relationships := st_relationships st
                                        @ [mk_relationship (uid file_node) (uid func_node) ''CONTAINS''],
                  function_definitions := function_definitions st
                    @ [\<lparr>fd_name = func_name, fd_id = uid func_node,
                         fd_start_line = ts_start_line (fst cap),
                         fd_end_line = ts_end_line (fst cap)\<rparr>],
                  next_id := next_id st + 1\<rparr>))"

text \<open>
  Pass 2: one step of the loop over the call captures. The caller is the first function
  definition, in declaration order, whose lines enclose the line of the call; the
  callee is whatever the entity map holds under the called name.
\<close>

definition call_edge ::
  "FunctionDefinition list \<Rightarrow> (string \<rightharpoonup> nat \<times> string) \<Rightarrow> capture \<Rightarrow> Relationship option" where
  "call_edge func_defs emap cap =
     (case ts_function_field (fst cap) of
        None \<Rightarrow> None
      | Some called_func_name \<Rightarrow>
          (let call_line = ts_start_line (fst cap);
               caller_func = find (\<lambda>func_def. fd_start_line func_def \<le> call_line
                                               \<and> call_line \<le> fd_end_line func_def) func_defs
           in case (caller_func, emap called_func_name) of
                (Some caller, Some (callee_id, callee_type)) \<Rightarrow>
                  Some (mk_relationship (fd_id caller) callee_id ''CALLS'')
              | other \<Rightarrow> None))"

definition call_step :: "capture \<Rightarrow> ExtractState \<Rightarrow> ExtractState" where
  "call_step cap st =
     (case call_edge (function_definitions st) (entity_map st) cap of
        None \<Rightarrow> st
      | Some r \<Rightarrow> st\<lparr>st_relationships := st_relationships st @ [r]\<rparr>)"

definition calls_pass :: "capture list \<Rightarrow> ExtractState \<Rightarrow> ExtractState" where
  "calls_pass caps st = (if function_definitions st \<noteq> [] then fold call_step caps st else st)"

text \<open>
  Pass 1 as a whole: imports, then classes and inheritance, then functions, from the
  empty lists and the empty entity map.
\<close>

definition pass1 :: "ParsedTree \<Rightarrow> Node \<Rightarrow> nat \<Rightarrow> error + ExtractState" where
  "pass1 tree file_node first_id =
     (let st0 = \<lparr>st_nodes = [], st_relationships = [], entity_map = Map.empty,
                 function_definitions = [], next_id = first_id\<rparr>;
          st1 = fold (import_step file_node) (import_captures tree) st0
      in case class_loop file_node (class_captures tree) (None, st1) of
           Inl e \<Rightarrow> Inl e
         | Inr st2 \<Rightarrow> Inr (fold (function_step file_node) (function_captures tree) st2))"

text \<open>
  \<open>_extract_entities_and_relations\<close>: pass 1, pass 2, and the two lists returned. The
  third component is the next unused id.
\<close>

definition extract_entities_and_relations ::
  "ParsedTree \<Rightarrow> Node \<Rightarrow> nat \<Rightarrow> error + (Node list \<times> Relationship list) \<times> nat" where
  "extract_entities_and_relations tree file_node first_id =
     (case pass1 tree file_node first_id of
        Inl e \<Rightarrow> Inl e
      | Inr st3 \<Rightarrow>
          (let st4 = calls_pass (call_captures tree) st3
           in Inr ((st_nodes st4, st_relationships st4), next_id st4)))"

text \<open>
  \<open>build_graph_for_file\<close>. The inputs stand for \<open>file_path\<close>, \<open>Path(file_path).name\<close>,
  \<open>Path(file_path).suffix.lower()\<close> and the outcome of parsing the content with the
  language found (\<open>None\<close> when the parser raises). The last two statements before the
  \<open>return\<close> are \<open>nodes.extend(entities)\<close> and \<open>relationships.extend(relationships)\<close>,
  the second one on the list that the extraction returned.
\<close>

definition build_graph_for_file ::
  "string \<Rightarrow> string \<Rightarrow> string \<Rightarrow> ParsedTree option \<Rightarrow> nat
     \<Rightarrow> error + (Node list \<times> Relationship list)" where
  "build_graph_for_file file_path file_name ext parsed first_id =
     (case get_language_from_extension ext of
        None \<Rightarrow> Inr ([], [])
      | Some lang \<Rightarrow>
          (case parsed of
             None \<Rightarrow> Inr ([], [])
           | Some tree \<Rightarrow>
               (let file_node = \<lparr>uid = first_id, label = ''File'',
                                  properties = [(''name'', file_name), (''path'', file_path)]\<rparr>
                in case extract_entities_and_relations tree file_node (first_id + 1) of
                     Inl e \<Rightarrow> Inl e
                   | Inr ((entities, relationships), n) \<Rightarrow>
                       Inr ([file_node] @ entities, relationships @ relationships))))"

section \<open>Example inputs\<close>

text \<open>A cyclic query result: \<open>A\<close> calls \<open>B\<close> and \<open>B\<close> calls \<open>A\<close>; likewise for inheritance.\<close>

definition call_cycle :: GraphResult where
  "call_cycle =
     \<lparr>nodes = [],
      edges = [\<lparr>source_id = ''A'', target_id = ''B'', relationship_type = ''CALLS'',
                 edge_properties = []\<rparr>,
               \<lparr>source_id = ''B'', target_id = ''A'', relationship_type = ''CALLS'',
                 edge_properties = []\<rparr>],
      result_metadata = []\<rparr>"

definition inherit_cycle :: GraphResult where
  "inherit_cycle =
     \<lparr>nodes = [],
      edges = [\<lparr>source_id = ''A'', target_id = ''B'', relationship_type = ''INHERITS_FROM'',
                 edge_properties = []\<rparr>,
               \<lparr>source_id = ''B'', target_id = ''A'', relationship_type = ''INHERITS_FROM'',
                 edge_properties = []\<rparr>],
      result_metadata = []\<rparr>"

text \<open>
  Two candidates and a graph client whose every query raises; \<open>failing_reranker\<close> uses
  the default threshold.
\<close>

definition mk_chunk :: "string \<Rightarrow> CodeChunk" where
  "mk_chunk i =
     \<lparr>chunk_id = i, chunk_file_path = ''f.py'', content = [], start_line = 1, end_line = 2,
      language = ''python'', chunk_type = ''function'', chunk_metadata = []\<rparr>"

definition mk_result :: "string \<Rightarrow> real \<Rightarrow> int \<Rightarrow> string \<Rightarrow> SearchResult" where
  "mk_result i s k t = \<lparr>chunk = mk_chunk i, score = s, rank = k, search_type = t, metadata = []\<rparr>"

definition failing_client :: graph_client where
  "failing_client cid relationship_types max_hops = Inl (GraphQueryFailure ''unavailable'')"

definition failing_reranker :: GraphReranker where
  "failing_reranker = \<lparr>neo4j_client = failing_client, threshold = rerank_threshold_default\<rparr>"



text \<open>Example stores.\<close>

definition example_ops :: "graph_op list" where
  "example_ops =
     [CreateFileNode ''a.py'' ''python'' ''source'' (Some [(''file_size'', MInt 10)]),
      CreateChunkNode (mk_chunk ''c1''),
      CreateRelationship ''a.py'' ''c1'' ''CONTAINS'' None,
      CreateFunctionNode ''hello'' ''a.py::hello'' ''a.py'' 1 [],
      CreateRelationship ''a.py::hello'' ''c1'' ''DEFINED_IN'' None]"

definition mk_node :: "string \<Rightarrow> string \<Rightarrow> GraphNode" where
  "mk_node i t =
     \<lparr>node_id = i, node_type = t, node_properties = [], node_file_path = ''f.py'',
      line_number = 0\<rparr>"

definition mk_edge :: "string \<Rightarrow> string \<Rightarrow> string \<Rightarrow> GraphEdge" where
  "mk_edge s t ty = \<lparr>source_id = s, target_id = t, relationship_type = ty, edge_properties = []\<rparr>"

definition hop_store :: JsonGraphClient where
  "hop_store =
     \<lparr>data_nodes = [(''c'', mk_node ''c'' ''Chunk''), (''f'', mk_node ''f'' ''Function''),
                    (''g'', mk_node ''g'' ''Function'')],
      data_edges = [mk_edge ''f'' ''c'' ''DEFINED_IN'', mk_edge ''f'' ''g'' ''CALLS'']\<rparr>"


definition indexed_store :: JsonGraphClient where
  "indexed_store = indexing_pass example_ops initialize_data"


definition weighted_store :: JsonGraphClient where
  "weighted_store =
     fst (create_relationship indexed_store ''a.py'' ''c1'' ''CONTAINS''
            (Some [(''weight'', MInt 1), (''kind'', MStr ''x'')]))"

definition hop_reranker :: GraphReranker where
  "hop_reranker = \<lparr>neo4j_client = json_graph_client hop_store, threshold = rerank_threshold_default\<rparr>"

text \<open>An example index and search service.\<close>

definition mk_meta :: "string \<Rightarrow> ChunkMeta" where
  "mk_meta i =
     \<lparr>meta_chunk_id = i, meta_file_path = ''f.py'', meta_language = ''python'',
      meta_chunk_type = ''function'', meta_start_line = 1, meta_end_line = 2\<rparr>"

definition fixed_scores :: "string list \<Rightarrow> real list" where
  "fixed_scores query_tokens = [2, 0, - 1]"

definition example_bm25 :: BM25Search where
  "example_bm25 =
     \<lparr>bm25_k1 = 1.2, bm25_b = 0.75,
      bm25_corpus = [[''hello''], [''main''], [''other'']],
      bm25_index = Some fixed_scores,
      bm25_chunk_metadata = [mk_meta ''B'', mk_meta ''A'', mk_meta ''C'']\<rparr>"

definition example_vector_backend :: "string \<Rightarrow> int \<Rightarrow> error + SearchResult list" where
  "example_vector_backend query top_k =
     Inr [mk_result ''A'' 0.9 1 ''vector'', mk_result ''B'' 0.1 2 ''vector'']"

definition example_search :: HybridSearch where
  "example_search =
     \<lparr>hs_vector_backend = example_vector_backend, hs_graph_client = json_graph_client hop_store,
      hs_bm25 = example_bm25, hs_chunk_cache = []\<rparr>"

definition example_corpus :: "string list list" where
  "example_corpus = [[''def'', ''hello''], [''def'', ''main'', ''hello'']]"

definition ranking_of :: "SearchResult list \<Rightarrow> (string \<times> real \<times> int) list" where
  "ranking_of results = map (\<lambda>r. (chunk_id (chunk r), score r, rank r)) results"

subsection \<open>Example files for the extractor\<close>

definition ts_node :: "string \<Rightarrow> nat \<Rightarrow> nat \<Rightarrow> string option \<Rightarrow> string option \<Rightarrow> TSNode" where
  "ts_node t s e n f =
     \<lparr>ts_text = t, ts_start_line = s, ts_end_line = e, ts_name_field = n, ts_function_field = f\<rparr>"

text \<open>
  The file \<open>corpus.py\<close>, lines counted from 0:
  \<^verbatim>\<open>def hello():\<close>, \<^verbatim>\<open>    pass\<close>, an empty line, \<^verbatim>\<open>def main():\<close>, \<^verbatim>\<open>    hello()\<close>.
\<close>

definition hello_main_tree :: ParsedTree where
  "hello_main_tree =
     \<lparr>import_captures = [],
      class_captures = [],
      function_captures =
        [(ts_node ''def hello(): pass'' 0 1 (Some ''hello'') None, ''func_def''),
         (ts_node ''hello'' 0 0 None None, ''name''),
         (ts_node ''def main(): hello()'' 3 4 (Some ''main'') None, ''func_def''),
         (ts_node ''main'' 3 3 None None, ''name'')],
      call_captures =
        [(ts_node ''hello()'' 4 4 None (Some ''hello''), ''call_expr''),
         (ts_node ''hello'' 4 4 None None, ''name'')]\<rparr>"


definition calls_of :: "error + (Node list \<times> Relationship list) \<Rightarrow> (nat \<times> nat) list" where
  "calls_of out =
     (case out of
        Inl e \<Rightarrow> []
      | Inr (ns, rs) \<Rightarrow>
          map (\<lambda>r. (rel_source r, rel_target r)) (filter (\<lambda>r. rel_type r = ''CALLS'') rs))"

definition labelled :: "error + (Node list \<times> Relationship list) \<Rightarrow> (nat \<times> string \<times> string) list" where
  "labelled out =
     (case out of
        Inl e \<Rightarrow> []
      | Inr (ns, rs) \<Rightarrow> map (\<lambda>n. (uid n, label n, dict_get (properties n) ''name'' [])) ns)"

text \<open>The file node that \<open>build_graph_for_file\<close> makes for a path, with id 0.\<close>

definition file_node_of :: "string \<Rightarrow> Node" where
  "file_node_of path = \<lparr>uid = 0, label = ''File'', properties = [(''name'', path), (''path'', path)]\<rparr>"

definition extraction_of :: "string \<Rightarrow> ParsedTree \<Rightarrow> error + (Node list \<times> Relationship list)" where
  "extraction_of path tree =
     (case extract_entities_and_relations tree (file_node_of path) 1 of
        Inl e \<Rightarrow> Inl e
      | Inr (out, n) \<Rightarrow> Inr out)"




section \<open>Properties of the graph reranker\<close>

text \<open>
  C5: for every candidate with combined score \<open>c\<close> and graph score \<open>g\<close>, the blended
  final score is \<open>0.6 * c + 0.4 * g\<close> when \<open>g\<close> is strictly greater than the rerank
  threshold (default \<open>0.5\<close>), and \<open>0.8 * c + 0.2 * g\<close> otherwise.
\<close>

theorem combine_scores_blend:
  "combine_scores self c g =
     (if g > threshold self then 0.6 * c + 0.4 * g else 0.8 * c + 0.2 * g)
   \<and> rerank_threshold_default = 0.5"
  by (simp add: combine_scores_def rerank_threshold_default_def)

lemma failing_reranker_threshold: "threshold failing_reranker = 0.5"
  by (simp add: failing_reranker_def rerank_threshold_default_def)

theorem combine_scores_blend_witness:
  "combine_scores failing_reranker 1 0.9 = 0.96 \<and> combine_scores failing_reranker 1 0.5 = 0.9"
  by (simp add: combine_scores_blend failing_reranker_threshold)

subsection \<open>Failure of the neighbourhood query\<close>








lemma assign_ranks_member:
  "r \<in> set rs \<Longrightarrow> \<exists>k. r\<lparr>rank := k\<rparr> \<in> set (assign_ranks i rs)"
proof (induction rs arbitrary: i)
  case Nil
  then show ?case by simp
next
  case (Cons x xs)
  then show ?case by (metis assign_ranks.simps(2) list.set_intros(1,2) set_ConsD)
qed

lemma py_take_all: "int (length xs) \<le> k \<Longrightarrow> py_take k xs = xs"
  by (simp add: py_take_def)
















subsection \<open>Depth cap of the recursive traversals\<close>

lemma fold_max_le:
  "a \<le> (b::nat) \<Longrightarrow> (\<And>x. x \<in> set xs \<Longrightarrow> f x \<le> b) \<Longrightarrow> fold (\<lambda>x m. max m (f x)) xs a \<le> b"
  by (induction xs arbitrary: a) auto

lemma call_depth_le: "calculate_function_call_depth fid gr d \<le> max d 11"
proof (induction fid gr d rule: calculate_function_call_depth.induct)
  case (1 function_id graph_result current_depth)
  show ?case
  proof (cases "current_depth > 10")
    case True
    then show ?thesis by (simp add: calculate_function_call_depth.simps [of function_id graph_result current_depth])
  next
    case False
    let ?called = "map target_id
                (filter (\<lambda>edge. source_id edge = function_id \<and> relationship_type edge = ''CALLS'')
                   (edges graph_result))"
    show ?thesis
    proof (cases "?called = []")
      case True
      with False show ?thesis by (simp add: calculate_function_call_depth.simps[of function_id])
    next
      case ne: False
      have "fold (\<lambda>called_func max_depth.
                     max max_depth
                       (calculate_function_call_depth called_func graph_result (current_depth + 1)))
               ?called current_depth \<le> 11"
      proof (rule fold_max_le)
        show "current_depth \<le> 11" using False by simp
      next
        fix x assume "x \<in> set ?called"
        from "1.IH"[OF False refl ne this] False
        show "calculate_function_call_depth x graph_result (current_depth + 1) \<le> 11" by simp
      qed
      with False ne show ?thesis
        by (simp add: calculate_function_call_depth.simps[of function_id] Let_def)
    qed
  qed
qed

lemma inheritance_depth_le: "calculate_class_inheritance_depth cid gr d \<le> max d 11"
proof (induction cid gr d rule: calculate_class_inheritance_depth.induct)
  case (1 class_id graph_result current_depth)
  show ?case
  proof (cases "current_depth > 10")
    case True
    then show ?thesis by (simp add: calculate_class_inheritance_depth.simps [of class_id graph_result current_depth])
  next
    case False
    let ?parents = "map target_id
                (filter (\<lambda>edge. source_id edge = class_id \<and> relationship_type edge = ''INHERITS_FROM'')
                   (edges graph_result))"
    show ?thesis
    proof (cases "?parents = []")
      case True
      with False show ?thesis by (simp add: calculate_class_inheritance_depth.simps[of class_id])
    next
      case ne: False
      have "fold (\<lambda>parent_class max_depth.
                     max max_depth
                       (calculate_class_inheritance_depth parent_class graph_result (current_depth + 1)))
               ?parents current_depth \<le> 11"
      proof (rule fold_max_le)
        show "current_depth \<le> 11" using False by simp
      next
        fix x assume "x \<in> set ?parents"
        from "1.IH"[OF False refl ne this] False
        show "calculate_class_inheritance_depth x graph_result (current_depth + 1) \<le> 11" by simp
      qed
      with False ne show ?thesis
        by (simp add: calculate_class_inheritance_depth.simps[of class_id] Let_def)
    qed
  qed
qed

lemma call_depth_cut: "10 < d \<Longrightarrow> calculate_function_call_depth fid gr d = d"
  by (simp add: calculate_function_call_depth.simps [of fid gr d])

lemma inheritance_depth_cut: "10 < d \<Longrightarrow> calculate_class_inheritance_depth cid gr d = d"
  by (simp add: calculate_class_inheritance_depth.simps [of cid gr d])

lemma call_cycle_depth: "calculate_function_call_depth ''A'' call_cycle 0 = 11"
  unfolding call_cycle_def by code_simp

lemma inherit_cycle_depth: "calculate_class_inheritance_depth ''A'' inherit_cycle 0 = 11"
  unfolding inherit_cycle_def by code_simp

text \<open>
  C8: the recursive call-depth and inheritance-depth computations terminate for every
  query result, cyclic ones included. Both are total functions: every recursive call
  raises \<open>current_depth\<close> by one and a call with \<open>current_depth > 10\<close> returns at once,
  which is the measure \<open>11 - current_depth\<close> of their termination proofs. Hence no
  chain is followed beyond depth 11 and the depth reported from a start at 0 is at
  most 11.
\<close>

theorem depth_traversals_capped:
  "calculate_function_call_depth fid gr d \<le> max d 11
   \<and> calculate_class_inheritance_depth cid gr' d \<le> max d 11
   \<and> (10 < d \<longrightarrow> calculate_function_call_depth fid gr d = d
                 \<and> calculate_class_inheritance_depth cid gr' d = d)"
  using call_depth_le [of fid gr d] inheritance_depth_le [of cid gr' d]
    call_depth_cut [of d fid gr] inheritance_depth_cut [of d cid gr']
  by simp

theorem depth_traversals_capped_witness:
  "calculate_function_call_depth ''A'' call_cycle 0 = 11
   \<and> calculate_class_inheritance_depth ''A'' inherit_cycle 0 = 11
   \<and> calculate_function_call_depth ''A'' call_cycle 0 \<le> max 0 11
   \<and> calculate_class_inheritance_depth ''A'' inherit_cycle 0 \<le> max 0 11
   \<and> (10::nat) < 11
   \<and> calculate_function_call_depth ''A'' call_cycle 11 = 11
   \<and> calculate_class_inheritance_depth ''A'' inherit_cycle 11 = 11"
  using depth_traversals_capped [of "''A''" call_cycle 0 "''A''" inherit_cycle]
    depth_traversals_capped [of "''A''" call_cycle 11 "''A''" inherit_cycle]
    call_cycle_depth inherit_cycle_depth
  by simp

section \<open>Properties of the JSON graph store\<close>

subsection \<open>Insertion-ordered dictionaries\<close>

lemma dict_set_keys: "map fst (dict_set k v d) = add_key k (map fst d)"
  by (simp add: dict_set_def update_keys add_key_def)

lemma dict_set_map_of: "map_of (dict_set k v d) = (map_of d)(k \<mapsto> v)"
  by (simp add: dict_set_def update_conv')

lemma dict_set_distinct: "distinct (map fst d) \<Longrightarrow> distinct (map fst (dict_set k v d))"
  by (simp add: dict_set_def distinct_update)

lemma add_key_set: "set (add_key k ks) = insert k (set ks)"
  by (auto simp: add_key_def)

lemma fold_add_key_set: "set (fold add_key ws ks) = set ks \<union> set ws"
  by (induction ws arbitrary: ks) (auto simp: add_key_set)

lemma fold_add_key_present: "set ws \<subseteq> set ks \<Longrightarrow> fold add_key ws ks = ks"
  by (induction ws arbitrary: ks) (auto simp: add_key_def)

lemma fold_add_key_twice: "fold add_key ws (fold add_key ws ks) = fold add_key ws ks"
  by (rule fold_add_key_present) (simp add: fold_add_key_set)

lemma alist_eqI:
  "map fst xs = map fst ys \<Longrightarrow> map_of xs = map_of ys \<Longrightarrow> distinct (map fst xs) \<Longrightarrow> xs = ys"
proof (induction xs arbitrary: ys)
  case Nil
  then show ?case by simp
next
  case (Cons x xs)
  then obtain y ys' where ys: "ys = y # ys'" by (cases ys) auto
  with Cons.prems have k: "fst x = fst y" and ks: "map fst xs = map fst ys'" by auto
  have v: "snd x = snd y"
    using fun_cong [OF Cons.prems(2), of "fst x"] ys k by simp
  have xy: "x = y" using k v by (simp add: prod_eq_iff)
  have notin: "fst x \<notin> set (map fst xs)" using Cons.prems(3) by simp
  have "map_of xs = map_of ys'"
  proof
    fix a
    show "map_of xs a = map_of ys' a"
    proof (cases "a = fst x")
      case True
      have "map_of xs a = None" using notin True by (simp add: map_of_eq_None_iff)
      moreover have "map_of ys' a = None"
        using notin True ks by (metis map_of_eq_None_iff set_map)
      ultimately show ?thesis by simp
    next
      case False
      show ?thesis
        using fun_cong [OF Cons.prems(2), of a] ys False k by simp
    qed
  qed
  with Cons.IH[OF ks] Cons.prems(3) have "xs = ys'" by simp
  with xy ys show ?case by simp
qed

lemma set_pair_keys: "map fst (set_pair w d) = add_key (fst w) (map fst d)"
  by (simp add: set_pair_def dict_set_keys)

lemma fold_set_pair_keys: "map fst (fold set_pair ws d) = fold add_key (map fst ws) (map fst d)"
  by (induction ws arbitrary: d) (simp_all add: set_pair_keys)

lemma fold_set_pair_map_of: "map_of (fold set_pair ws d) = map_of d ++ map_of (rev ws)"
proof (induction ws arbitrary: d)
  case Nil
  then show ?case by simp
next
  case (Cons w ws)
  have "map_of (fold set_pair (w # ws) d) = map_of (set_pair w d) ++ map_of (rev ws)"
    using Cons.IH by simp
  also have "\<dots> = map_of d ++ map_of (rev (w # ws))"
    by (cases w) (simp add: set_pair_def dict_set_map_of)
  finally show ?case .
qed


lemma fold_set_pair_distinct:
  "distinct (map fst d) \<Longrightarrow> distinct (map fst (fold set_pair ws d))"
  by (induction ws arbitrary: d) (simp_all add: set_pair_def dict_set_distinct)

lemma fold_set_pair_twice:
  assumes "distinct (map fst d)"
  shows "fold set_pair ws (fold set_pair ws d) = fold set_pair ws d"
proof (rule alist_eqI)
  show "map fst (fold set_pair ws (fold set_pair ws d)) = map fst (fold set_pair ws d)"
    by (simp add: fold_set_pair_keys fold_add_key_twice)
  show "map_of (fold set_pair ws (fold set_pair ws d)) = map_of (fold set_pair ws d)"
    by (auto simp: fold_set_pair_map_of map_add_def fun_eq_iff split: option.split)
  show "distinct (map fst (fold set_pair ws (fold set_pair ws d)))"
    using assms by (simp add: fold_set_pair_distinct)
qed

subsection \<open>What the creating methods do to the store\<close>

lemma apply_op_nodes:
  "data_nodes (apply_op op s) =
     (case node_write op of None \<Rightarrow> data_nodes s | Some w \<Rightarrow> set_pair w (data_nodes s))"
proof (cases op)
  case (CreateRelationship src tgt ty p)
  then show ?thesis
    by (simp add: create_relationship_def Let_def split: option.split prod.split)
qed (simp_all add: create_file_node_def create_chunk_node_def create_function_node_def
      create_class_node_def set_pair_def Let_def)

lemma update_existing_absent:
  "k \<notin> edge_key ` set es \<Longrightarrow> update_existing k props es = None"
  by (induction es) auto

lemma update_existing_present:
  "k \<in> edge_key ` set es \<Longrightarrow>
     \<exists>es' e'. update_existing k props es = Some (es', e') \<and> map edge_key es' = map edge_key es"
proof (induction es)
  case Nil
  then show ?case by simp
next
  case (Cons e es)
  show ?case
  proof (cases "edge_key e = k")
    case True
    then show ?thesis by (simp add: Let_def edge_key_def)
  next
    case False
    with Cons.prems have "k \<in> edge_key ` set es" by auto
    from Cons.IH[OF this] obtain es' e' where
      "update_existing k props es = Some (es', e')" "map edge_key es' = map edge_key es"
      by blast
    with False show ?thesis by simp
  qed
qed

lemma create_relationship_keys:
  "map edge_key (data_edges (fst (create_relationship s src tgt ty p)))
     = add_key (src, tgt, ty) (map edge_key (data_edges s))"
proof (cases "(src, tgt, ty) \<in> edge_key ` set (data_edges s)")
  case True
  from update_existing_present[OF this] obtain es' e' where
    "update_existing (src, tgt, ty) (case p of None \<Rightarrow> [] | Some q \<Rightarrow> q) (data_edges s) = Some (es', e')"
    "map edge_key es' = map edge_key (data_edges s)"
    by blast
  with True show ?thesis
    by (simp add: create_relationship_def add_key_def)
next
  case False
  from update_existing_absent[OF this]
  have "update_existing (src, tgt, ty) (case p of None \<Rightarrow> [] | Some q \<Rightarrow> q) (data_edges s) = None" .
  with False show ?thesis
    by (simp add: create_relationship_def add_key_def edge_key_def Let_def)
qed

lemma apply_op_edge_keys:
  "map edge_key (data_edges (apply_op op s)) =
     (case edge_write op of None \<Rightarrow> map edge_key (data_edges s)
      | Some k \<Rightarrow> add_key k (map edge_key (data_edges s)))"
proof (cases op)
  case (CreateRelationship src tgt ty p)
  then show ?thesis by (simp add: create_relationship_keys)
qed (simp_all add: create_file_node_def create_chunk_node_def create_function_node_def
      create_class_node_def Let_def)

lemma indexing_pass_nodes:
  "data_nodes (indexing_pass ops s) = fold set_pair (List.map_filter node_write ops) (data_nodes s)"
  unfolding indexing_pass_def
proof (induction ops arbitrary: s)
  case Nil
  then show ?case by simp
next
  case (Cons op ops)
  then show ?case
    by (cases "node_write op") (simp_all add: apply_op_nodes)
qed

lemma indexing_pass_edge_keys:
  "map edge_key (data_edges (indexing_pass ops s))
     = fold add_key (List.map_filter edge_write ops) (map edge_key (data_edges s))"
  unfolding indexing_pass_def
proof (induction ops arbitrary: s)
  case Nil
  then show ?case by simp
next
  case (Cons op ops)
  then show ?case
    by (cases "edge_write op") (simp_all add: apply_op_edge_keys)
qed

lemma indexing_pass_distinct:
  "distinct (map fst (data_nodes s)) \<Longrightarrow> distinct (map fst (data_nodes (indexing_pass ops s)))"
  by (simp add: indexing_pass_nodes fold_set_pair_distinct)

lemma relationship_type_of_key: "map relationship_type es = map (\<lambda>k. snd (snd k)) (map edge_key es)"
  by (simp add: edge_key_def)

lemma second_pass_nodes:
  "distinct (map fst (data_nodes s)) \<Longrightarrow>
     data_nodes (indexing_pass ops (indexing_pass ops s)) = data_nodes (indexing_pass ops s)"
  by (simp add: indexing_pass_nodes fold_set_pair_twice)

lemma second_pass_edge_keys:
  "map edge_key (data_edges (indexing_pass ops (indexing_pass ops s)))
     = map edge_key (data_edges (indexing_pass ops s))"
  by (simp add: indexing_pass_edge_keys fold_add_key_twice)

lemma second_pass_stats:
  assumes "distinct (map fst (data_nodes s))"
  shows "get_database_stats (indexing_pass ops (indexing_pass ops s))
           = get_database_stats (indexing_pass ops s)"
proof -
  have "map relationship_type (data_edges (indexing_pass ops (indexing_pass ops s)))
          = map relationship_type (data_edges (indexing_pass ops s))"
    by (simp only: relationship_type_of_key second_pass_edge_keys)
  then show ?thesis
    by (simp add: get_database_stats_def second_pass_nodes[OF assms])
qed


lemma find_Some_member: "find P xs = Some x \<Longrightarrow> x \<in> set xs \<and> P x"
  by (induction xs) (auto split: if_splits)

lemma update_existing_merges:
  "find (\<lambda>e. edge_key e = k) es = Some e0 \<Longrightarrow>
     \<exists>es'. update_existing k props es
             = Some (es', e0\<lparr>edge_properties := dict_update (edge_properties e0) props\<rparr>)"
proof (induction es)
  case Nil
  then show ?case by simp
next
  case (Cons e es)
  show ?case
  proof (cases "edge_key e = k")
    case True
    with Cons.prems show ?thesis by (simp add: Let_def)
  next
    case False
    with Cons.prems have "find (\<lambda>e. edge_key e = k) es = Some e0" by simp
    from Cons.IH[OF this] False show ?thesis by auto
  qed
qed

lemma create_relationship_merges:
  assumes "find (\<lambda>e. edge_key e = (src, tgt, ty)) (data_edges s) = Some e0"
  shows "snd (create_relationship s src tgt ty (Some props))
           = e0\<lparr>edge_properties := dict_update (edge_properties e0) props\<rparr>"
proof -
  from update_existing_merges[OF assms, of props] obtain es' where
    "update_existing (src, tgt, ty) props (data_edges s)
       = Some (es', e0\<lparr>edge_properties := dict_update (edge_properties e0) props\<rparr>)"
    by blast
  then show ?thesis by (simp add: create_relationship_def)
qed

lemma apply_op_replaces_node:
  assumes "node_write op = Some (k, v)" "k \<in> fst ` set (data_nodes s)"
  shows "map fst (data_nodes (apply_op op s)) = map fst (data_nodes s)"
    and "map_of (data_nodes (apply_op op s)) k = Some v"
  using assms by (simp_all add: apply_op_nodes set_pair_def dict_set_keys add_key_def dict_set_map_of)

lemma update_existing_stored:
  "find (\<lambda>e. edge_key e = k) es = Some e0 \<Longrightarrow>
     \<exists>i < length es. es ! i = e0 \<and> (\<forall>j < i. edge_key (es ! j) \<noteq> k)
        \<and> update_existing k props es
            = Some (es[i := e0\<lparr>edge_properties := dict_update (edge_properties e0) props\<rparr>],
                    e0\<lparr>edge_properties := dict_update (edge_properties e0) props\<rparr>)"
proof (induction es)
  case Nil
  then show ?case by simp
next
  case (Cons e es)
  show ?case
  proof (cases "edge_key e = k")
    case True
    with Cons.prems have "e = e0" by simp
    with True show ?thesis by (intro exI[of _ 0]) (simp add: Let_def)
  next
    case False
    with Cons.prems have "find (\<lambda>e. edge_key e = k) es = Some e0" by simp
    from Cons.IH[OF this] obtain i where i: "i < length es" "es ! i = e0"
      "\<forall>j < i. edge_key (es ! j) \<noteq> k"
      "update_existing k props es
         = Some (es[i := e0\<lparr>edge_properties := dict_update (edge_properties e0) props\<rparr>],
                 e0\<lparr>edge_properties := dict_update (edge_properties e0) props\<rparr>)"
      by blast
    have "\<forall>j < Suc i. edge_key ((e # es) ! j) \<noteq> k"
      using i(3) False by (auto simp: less_Suc_eq_0_disj)
    with i(1,2,4) False show ?thesis
      by (intro exI[of _ "Suc i"]) simp
  qed
qed

lemma create_relationship_stored:
  assumes "find (\<lambda>e. edge_key e = (src, tgt, ty)) (data_edges s) = Some e0"
  shows "\<exists>i < length (data_edges s). data_edges s ! i = e0
          \<and> (\<forall>j < i. edge_key (data_edges s ! j) \<noteq> (src, tgt, ty))
          \<and> data_edges (fst (create_relationship s src tgt ty (Some props)))
              = (data_edges s)[i := e0\<lparr>edge_properties := dict_update (edge_properties e0) props\<rparr>]"
proof -
  from update_existing_stored[OF assms, of props] obtain i where
    i: "i < length (data_edges s)" "data_edges s ! i = e0"
      "\<forall>j < i. edge_key (data_edges s ! j) \<noteq> (src, tgt, ty)"
      "update_existing (src, tgt, ty) props (data_edges s)
         = Some ((data_edges s)[i := e0\<lparr>edge_properties := dict_update (edge_properties e0) props\<rparr>],
                 e0\<lparr>edge_properties := dict_update (edge_properties e0) props\<rparr>)"
    by blast
  have "data_edges (fst (create_relationship s src tgt ty (Some props)))
          = (data_edges s)[i := e0\<lparr>edge_properties := dict_update (edge_properties e0) props\<rparr>]"
    using i(4) by (simp add: create_relationship_def)
  with i(1,2,3) show ?thesis by blast
qed

lemma dict_update_fold: "dict_update d other = fold set_pair other d"
proof -
  have "(\<lambda>(k, v). dict_set k v) = set_pair"
    by (simp add: fun_eq_iff set_pair_def)
  then show ?thesis unfolding dict_update_def by (rule arg_cong[where f="\<lambda>g. fold g other d"])
qed

lemma dict_update_map_of: "map_of (dict_update d other) = map_of d ++ map_of (rev other)"
  by (simp add: dict_update_fold fold_set_pair_map_of)

lemma dict_update_keys: "map fst (dict_update d other) = fold add_key (map fst other) (map fst d)"
  by (simp add: dict_update_fold fold_set_pair_keys)

text \<open>
  C7: creating a node whose id is already in the store replaces that node and adds
  none; creating a relationship whose (source, target, type) triple is already stored
  appends no edge: the first stored edge with that triple stays at its place in the
  list with the new properties merged into its own (a new key is added, an existing
  key takes the new value, the other keys keep theirs), and that edge is returned;
  hence a second run of the same indexing pass leaves the nodes, the edge triples and
  the per-kind node and per-type edge counts of \<open>get_database_stats\<close> as they were
  after the first run.
\<close>

theorem reindexing_is_idempotent:
  assumes "distinct (map fst (data_nodes store))"
  shows "(node_write op = Some (k, v) \<and> k \<in> fst ` set (data_nodes store)
            \<longrightarrow> map fst (data_nodes (apply_op op store)) = map fst (data_nodes store)
                \<and> map_of (data_nodes (apply_op op store)) k = Some v)
       \<and> (find (\<lambda>e. edge_key e = (src, tgt, ty)) (data_edges store) = Some e0
            \<longrightarrow> map edge_key (data_edges (fst (create_relationship store src tgt ty (Some props))))
                  = map edge_key (data_edges store)
                \<and> snd (create_relationship store src tgt ty (Some props))
                  = e0\<lparr>edge_properties := dict_update (edge_properties e0) props\<rparr>
                \<and> (\<exists>i < length (data_edges store). data_edges store ! i = e0
                      \<and> (\<forall>j < i. edge_key (data_edges store ! j) \<noteq> (src, tgt, ty))
                      \<and> data_edges (fst (create_relationship store src tgt ty (Some props)))
                          = (data_edges store)
                              [i := e0\<lparr>edge_properties := dict_update (edge_properties e0) props\<rparr>])
                \<and> map_of (dict_update (edge_properties e0) props)
                    = map_of (edge_properties e0) ++ map_of (rev props)
                \<and> map fst (dict_update (edge_properties e0) props)
                    = fold add_key (map fst props) (map fst (edge_properties e0)))
       \<and> data_nodes (indexing_pass ops (indexing_pass ops store))
            = data_nodes (indexing_pass ops store)
       \<and> map edge_key (data_edges (indexing_pass ops (indexing_pass ops store)))
            = map edge_key (data_edges (indexing_pass ops store))
       \<and> get_database_stats (indexing_pass ops (indexing_pass ops store))
            = get_database_stats (indexing_pass ops store)"
proof (intro conjI impI)
  assume w: "node_write op = Some (k, v) \<and> k \<in> fst ` set (data_nodes store)"
  then show "map fst (data_nodes (apply_op op store)) = map fst (data_nodes store)"
    by (simp add: apply_op_replaces_node(1))
  from w show "map_of (data_nodes (apply_op op store)) k = Some v"
    by (simp add: apply_op_replaces_node(2))
next
  assume f: "find (\<lambda>e. edge_key e = (src, tgt, ty)) (data_edges store) = Some e0"
  then have "(src, tgt, ty) \<in> set (map edge_key (data_edges store))"
    using find_Some_member[OF f] by force
  then show "map edge_key (data_edges (fst (create_relationship store src tgt ty (Some props))))
               = map edge_key (data_edges store)"
    by (simp add: create_relationship_keys add_key_def)
  from f show "snd (create_relationship store src tgt ty (Some props))
                 = e0\<lparr>edge_properties := dict_update (edge_properties e0) props\<rparr>"
    by (rule create_relationship_merges)
  from f show "\<exists>i < length (data_edges store). data_edges store ! i = e0
                 \<and> (\<forall>j < i. edge_key (data_edges store ! j) \<noteq> (src, tgt, ty))
                 \<and> data_edges (fst (create_relationship store src tgt ty (Some props)))
                     = (data_edges store)
                         [i := e0\<lparr>edge_properties := dict_update (edge_properties e0) props\<rparr>]"
    by (rule create_relationship_stored)
  show "map_of (dict_update (edge_properties e0) props)
          = map_of (edge_properties e0) ++ map_of (rev props)"
    by (rule dict_update_map_of)
  show "map fst (dict_update (edge_properties e0) props)
          = fold add_key (map fst props) (map fst (edge_properties e0))"
    by (rule dict_update_keys)
next
  show "data_nodes (indexing_pass ops (indexing_pass ops store))
          = data_nodes (indexing_pass ops store)"
    by (rule second_pass_nodes[OF assms])
  show "map edge_key (data_edges (indexing_pass ops (indexing_pass ops store)))
          = map edge_key (data_edges (indexing_pass ops store))"
    by (rule second_pass_edge_keys)
  show "get_database_stats (indexing_pass ops (indexing_pass ops store))
          = get_database_stats (indexing_pass ops store)"
    by (rule second_pass_stats[OF assms])
qed

lemmas store_eval_defs =
  indexed_store_def indexing_pass_def example_ops_def initialize_data_def
  create_file_node_def create_chunk_node_def create_function_node_def create_class_node_def
  create_relationship_def dict_set_def dict_get_def dict_update_def count_into_def
  mk_chunk_def mk_edge_def edge_key_def get_database_stats_def Let_def

theorem reindexing_is_idempotent_witness:
  "distinct (map fst (data_nodes indexed_store))
   \<and> node_write (CreateFileNode ''a.py'' ''python'' ''source'' None)
       = Some (''a.py'', snd (create_file_node initialize_data ''a.py'' ''python'' ''source'' None))
   \<and> ''a.py'' \<in> fst ` set (data_nodes indexed_store)
   \<and> find (\<lambda>e. edge_key e = (''a.py'', ''c1'', ''CONTAINS'')) (data_edges weighted_store)
       = Some \<lparr>source_id = ''a.py'', target_id = ''c1'', relationship_type = ''CONTAINS'',
               edge_properties = [(''weight'', MInt 1), (''kind'', MStr ''x'')]\<rparr>
   \<and> map fst (data_nodes (apply_op (CreateFileNode ''a.py'' ''python'' ''source'' None) indexed_store))
       = [''a.py'', ''c1'', ''a.py::hello'']
   \<and> data_edges (fst (create_relationship weighted_store ''a.py'' ''c1'' ''CONTAINS''
         (Some [(''weight'', MInt 2), (''seen'', MInt 1)])))
       = [\<lparr>source_id = ''a.py'', target_id = ''c1'', relationship_type = ''CONTAINS'',
           edge_properties = [(''weight'', MInt 2), (''kind'', MStr ''x''), (''seen'', MInt 1)]\<rparr>,
          mk_edge ''a.py::hello'' ''c1'' ''DEFINED_IN'']
   \<and> get_database_stats (indexing_pass example_ops indexed_store)
       = ([(''File'', 1), (''Chunk'', 1), (''Function'', 1)], [(''CONTAINS'', 1), (''DEFINED_IN'', 1)])"
proof -
  have d: "distinct (map fst (data_nodes indexed_store))"
    by (simp add: store_eval_defs)
  have w: "node_write (CreateFileNode ''a.py'' ''python'' ''source'' None)
       = Some (''a.py'', snd (create_file_node initialize_data ''a.py'' ''python'' ''source'' None))"
    by simp
  have k: "''a.py'' \<in> fst ` set (data_nodes indexed_store)"
    by (simp add: store_eval_defs)
  have f: "find (\<lambda>e. edge_key e = (''a.py'', ''c1'', ''CONTAINS'')) (data_edges weighted_store)
       = Some \<lparr>source_id = ''a.py'', target_id = ''c1'', relationship_type = ''CONTAINS'',
               edge_properties = [(''weight'', MInt 1), (''kind'', MStr ''x'')]\<rparr>"
    by (simp add: weighted_store_def store_eval_defs)
  have ks: "map fst (data_nodes indexed_store) = [''a.py'', ''c1'', ''a.py::hello'']"
    by (simp add: store_eval_defs)
  have es: "data_edges weighted_store
       = [\<lparr>source_id = ''a.py'', target_id = ''c1'', relationship_type = ''CONTAINS'',
           edge_properties = [(''weight'', MInt 1), (''kind'', MStr ''x'')]\<rparr>,
          mk_edge ''a.py::hello'' ''c1'' ''DEFINED_IN'']"
    by (simp add: weighted_store_def store_eval_defs)
  have st: "get_database_stats indexed_store
       = ([(''File'', 1), (''Chunk'', 1), (''Function'', 1)], [(''CONTAINS'', 1), (''DEFINED_IN'', 1)])"
    by (simp add: store_eval_defs)
  have init: "distinct (map fst (data_nodes initialize_data))"
    by (simp add: initialize_data_def)
  have dw: "distinct (map fst (data_nodes weighted_store))"
    by (simp add: weighted_store_def store_eval_defs)
  note nodes_thm = reindexing_is_idempotent [OF d, of "CreateFileNode ''a.py'' ''python'' ''source'' None"
        "''a.py''" "snd (create_file_node initialize_data ''a.py'' ''python'' ''source'' None)"
        "''a.py''" "''c1''" "''CONTAINS''" "mk_edge ''a.py'' ''c1'' ''CONTAINS''" "[]" "[]"]
  note edge_thm = reindexing_is_idempotent [OF dw, of "CreateChunkNode (mk_chunk ''c1'')" "''c1''"
        "snd (create_chunk_node initialize_data (mk_chunk ''c1''))"
        "''a.py''" "''c1''" "''CONTAINS''"
        "\<lparr>source_id = ''a.py'', target_id = ''c1'', relationship_type = ''CONTAINS'',
               edge_properties = [(''weight'', MInt 1), (''kind'', MStr ''x'')]\<rparr>"
        "[(''weight'', MInt 2), (''seen'', MInt 1)]" "[]"]
  note pass_thm = reindexing_is_idempotent [OF init, of "CreateChunkNode (mk_chunk ''c1'')" "''c1''"
        "snd (create_chunk_node initialize_data (mk_chunk ''c1''))"
        "''a.py''" "''c1''" "''CONTAINS''" "mk_edge ''a.py'' ''c1'' ''CONTAINS''" "[]" example_ops]
  have n2: "map fst (data_nodes (apply_op (CreateFileNode ''a.py'' ''python'' ''source'' None) indexed_store))
       = [''a.py'', ''c1'', ''a.py::hello'']"
    using nodes_thm w k ks by simp
  from edge_thm f obtain i where i: "i < length (data_edges weighted_store)"
    "\<forall>j < i. edge_key (data_edges weighted_store ! j) \<noteq> (''a.py'', ''c1'', ''CONTAINS'')"
    "data_edges (fst (create_relationship weighted_store ''a.py'' ''c1'' ''CONTAINS''
         (Some [(''weight'', MInt 2), (''seen'', MInt 1)])))
       = (data_edges weighted_store)
           [i := \<lparr>source_id = ''a.py'', target_id = ''c1'', relationship_type = ''CONTAINS'',
                   edge_properties = dict_update [(''weight'', MInt 1), (''kind'', MStr ''x'')]
                                       [(''weight'', MInt 2), (''seen'', MInt 1)]\<rparr>]"
    by auto
  have "edge_key (data_edges weighted_store ! 0) = (''a.py'', ''c1'', ''CONTAINS'')"
    by (simp add: es edge_key_def)
  with i(2) have "\<not> 0 < i" by blast
  then have "i = 0" by simp
  with i(3) have e2: "data_edges (fst (create_relationship weighted_store ''a.py'' ''c1'' ''CONTAINS''
         (Some [(''weight'', MInt 2), (''seen'', MInt 1)])))
       = [\<lparr>source_id = ''a.py'', target_id = ''c1'', relationship_type = ''CONTAINS'',
           edge_properties = [(''weight'', MInt 2), (''kind'', MStr ''x''), (''seen'', MInt 1)]\<rparr>,
          mk_edge ''a.py::hello'' ''c1'' ''DEFINED_IN'']"
    by (simp add: es dict_update_def dict_set_def)
  have s2: "get_database_stats (indexing_pass example_ops indexed_store)
       = ([(''File'', 1), (''Chunk'', 1), (''Function'', 1)], [(''CONTAINS'', 1), (''DEFINED_IN'', 1)])"
    using pass_thm st by (simp add: indexed_store_def)
  show ?thesis
    using d w k f n2 e2 s2 by simp
qed

subsection \<open>The neighbourhood query\<close>

lemma unique_by_subset: "set (unique_by key seen xs) \<subseteq> set xs"
  by (induction xs arbitrary: seen) auto

lemma unique_by_keys: "key ` set (unique_by key seen xs) = key ` set xs - set seen"
  by (induction xs arbitrary: seen) auto

lemma unique_by_distinct: "distinct (map key (unique_by key seen xs))"
proof (induction xs arbitrary: seen)
  case Nil
  then show ?case by simp
next
  case (Cons x xs)
  have "key x \<notin> key ` set (unique_by key (key x # seen) xs)"
    by (simp add: unique_by_keys)
  with Cons.IH show ?case by simp
qed

lemma find_related_chunks_edges_unfold:
  "edges (find_related_chunks store cid (Some ts) hops)
     = unique_by edge_key []
         (filter (\<lambda>edge. relationship_type edge \<in> set ts
                           \<and> (source_id edge = cid \<or> target_id edge = cid))
            (data_edges store))"
  by (simp add: find_related_chunks_def Let_def)

lemma find_related_chunks_edges:
  "set (edges (find_related_chunks store cid (Some ts) hops))
     \<subseteq> {e \<in> set (data_edges store).
          relationship_type e \<in> set ts \<and> (source_id e = cid \<or> target_id e = cid)}"
proof -
  have "set (edges (find_related_chunks store cid (Some ts) hops))
          \<subseteq> set (filter (\<lambda>edge. relationship_type edge \<in> set ts
                           \<and> (source_id edge = cid \<or> target_id edge = cid))
            (data_edges store))"
    unfolding find_related_chunks_edges_unfold by (rule unique_by_subset)
  then show ?thesis by simp
qed

lemma find_related_chunks_edge_keys:
  "edge_key ` set (edges (find_related_chunks store cid (Some ts) hops))
     = edge_key ` {e \<in> set (data_edges store).
          relationship_type e \<in> set ts \<and> (source_id e = cid \<or> target_id e = cid)}"
  by (simp add: find_related_chunks_def Let_def unique_by_keys)

lemma find_related_chunks_distinct:
  "distinct (map edge_key (edges (find_related_chunks store cid ts hops)))"
  "distinct (map node_id (nodes (find_related_chunks store cid ts hops)))"
  by (simp_all add: find_related_chunks_def Let_def unique_by_distinct)

lemma map_filter_pair:
  "set (List.map_filter f [a, b]) = {n. f a = Some n \<or> f b = Some n}"
  by (auto simp: List.map_filter_def)

lemma found_nodes_set:
  "set (concat (map (\<lambda>edge. List.map_filter f [source_id edge, target_id edge]) es))
     = {n. \<exists>e \<in> set es. f (source_id e) = Some n \<or> f (target_id e) = Some n}"
  by (auto simp: map_filter_pair simp del: map_filter_simps)

lemma find_related_chunks_nodes_unfold:
  "nodes (find_related_chunks store cid (Some ts) hops)
     = unique_by node_id []
         (concat (map (\<lambda>edge. List.map_filter (map_of (data_nodes store))
                                 [source_id edge, target_id edge])
                    (filter (\<lambda>edge. relationship_type edge \<in> set ts
                                      \<and> (source_id edge = cid \<or> target_id edge = cid))
                       (data_edges store))))"
  by (simp add: find_related_chunks_def Let_def del: map_filter_simps)

lemma filter_bex:
  "{n. \<exists>e \<in> set (filter P es). Q e n} = {n. \<exists>e \<in> set es. P e \<and> Q e n}"
  by auto

lemma find_related_chunks_node_set:
  "set (concat (map (\<lambda>edge. List.map_filter (map_of (data_nodes store))
                                 [source_id edge, target_id edge])
                    (filter (\<lambda>edge. relationship_type edge \<in> set ts
                                      \<and> (source_id edge = cid \<or> target_id edge = cid))
                       (data_edges store))))
     = {n. \<exists>e \<in> set (data_edges store).
          (relationship_type e \<in> set ts \<and> (source_id e = cid \<or> target_id e = cid))
          \<and> (map_of (data_nodes store) (source_id e) = Some n
               \<or> map_of (data_nodes store) (target_id e) = Some n)}"
  by (simp only: found_nodes_set filter_bex)

lemma find_related_chunks_node_ids:
  "node_id ` set (nodes (find_related_chunks store cid (Some ts) hops))
     = node_id ` {n. \<exists>e \<in> set (data_edges store).
          (relationship_type e \<in> set ts \<and> (source_id e = cid \<or> target_id e = cid))
          \<and> (map_of (data_nodes store) (source_id e) = Some n
               \<or> map_of (data_nodes store) (target_id e) = Some n)}"
  by (simp only: find_related_chunks_nodes_unfold unique_by_keys find_related_chunks_node_set
      list.set Diff_empty)

lemma find_related_chunks_nodes:
  "set (nodes (find_related_chunks store cid (Some ts) hops))
     \<subseteq> {n. \<exists>e \<in> set (data_edges store).
          (relationship_type e \<in> set ts \<and> (source_id e = cid \<or> target_id e = cid))
          \<and> (map_of (data_nodes store) (source_id e) = Some n
               \<or> map_of (data_nodes store) (target_id e) = Some n)}"
  unfolding find_related_chunks_nodes_unfold find_related_chunks_node_set [symmetric]
  by (rule unique_by_subset)


lemma edge_key_ends: "edge_key e = edge_key e' \<Longrightarrow> source_id e = source_id e' \<and> target_id e = target_id e'"
  by (simp add: edge_key_def)

lemma rerank_types_subset: "set rerank_relationship_types \<subseteq> set default_relationship_types"
  by (simp add: rerank_relationship_types_def default_relationship_types_def)

lemma neighbourhood_nodes_from_edges:
  assumes "n \<in> set (nodes (find_related_chunks store cid (Some ts) hops))"
  shows "\<exists>e \<in> set (edges (find_related_chunks store cid (Some ts) hops)).
           map_of (data_nodes store) (source_id e) = Some n
           \<or> map_of (data_nodes store) (target_id e) = Some n"
proof -
  from assms find_related_chunks_nodes obtain e0 where e0: "e0 \<in> set (data_edges store)"
    "relationship_type e0 \<in> set ts \<and> (source_id e0 = cid \<or> target_id e0 = cid)"
    "map_of (data_nodes store) (source_id e0) = Some n
     \<or> map_of (data_nodes store) (target_id e0) = Some n"
    by blast
  then have "edge_key e0 \<in> edge_key ` set (edges (find_related_chunks store cid (Some ts) hops))"
    unfolding find_related_chunks_edge_keys by blast
  then obtain e where e: "e \<in> set (edges (find_related_chunks store cid (Some ts) hops))"
    "edge_key e = edge_key e0" by auto
  from edge_key_ends[OF e(2)] e0(3)
  have "map_of (data_nodes store) (source_id e) = Some n
        \<or> map_of (data_nodes store) (target_id e) = Some n" by simp
  with e(1) show ?thesis by (rule bexI[rotated])
qed

lemma neighbourhood_edges_bring_nodes:
  assumes "e \<in> set (edges (find_related_chunks store cid (Some ts) hops))"
    and "map_of (data_nodes store) (source_id e) = Some n
         \<or> map_of (data_nodes store) (target_id e) = Some n"
  shows "node_id n \<in> node_id ` set (nodes (find_related_chunks store cid (Some ts) hops))"
proof -
  from assms(1) find_related_chunks_edges have "e \<in> set (data_edges store)"
    "relationship_type e \<in> set ts \<and> (source_id e = cid \<or> target_id e = cid)"
    by blast+
  with assms(2) show ?thesis
    unfolding find_related_chunks_node_ids by blast
qed

text \<open>
  C3 (as amended): for every candidate, the neighbourhood used for feature extraction
  holds stored edges that start or end at the candidate's node (one hop) and whose type
  is one of CALLS, DEFINED_IN, CONTAINS, HAS_METHOD, INHERITS_FROM; it holds, up to
  duplicates of the same (source, target, type) triple, every such stored edge of type
  CALLS, DEFINED_IN, CONTAINS or HAS_METHOD; and its nodes are exactly the stored nodes
  at the two ends of its edges, one per node id.
\<close>

theorem rerank_neighbourhood_is_direct:
  assumes "neo4j_client self = json_graph_client store"
  shows "\<exists>nb. neo4j_client self cid rerank_relationship_types 2 = Inr nb
     \<and> set (edges nb) \<subseteq> set (data_edges store)
     \<and> (\<forall>e \<in> set (edges nb). (source_id e = cid \<or> target_id e = cid)
           \<and> relationship_type e \<in> set default_relationship_types)
     \<and> (\<forall>e \<in> set (data_edges store).
           (source_id e = cid \<or> target_id e = cid)
           \<and> relationship_type e \<in> set rerank_relationship_types
           \<longrightarrow> edge_key e \<in> edge_key ` set (edges nb))
     \<and> distinct (map edge_key (edges nb)) \<and> distinct (map node_id (nodes nb))
     \<and> (\<forall>n \<in> set (nodes nb). \<exists>e \<in> set (edges nb).
           map_of (data_nodes store) (source_id e) = Some n
           \<or> map_of (data_nodes store) (target_id e) = Some n)
     \<and> (\<forall>e \<in> set (edges nb). \<forall>n.
           map_of (data_nodes store) (source_id e) = Some n
           \<or> map_of (data_nodes store) (target_id e) = Some n
           \<longrightarrow> node_id n \<in> node_id ` set (nodes nb))"
proof -
  let ?nb = "find_related_chunks store cid (Some rerank_relationship_types) 2"
  have 1: "neo4j_client self cid rerank_relationship_types 2 = Inr ?nb"
    by (simp add: assms json_graph_client_def)
  have 2: "set (edges ?nb) \<subseteq> set (data_edges store)"
    using find_related_chunks_edges by blast
  have 3: "\<forall>e \<in> set (edges ?nb). (source_id e = cid \<or> target_id e = cid)
           \<and> relationship_type e \<in> set default_relationship_types"
    using find_related_chunks_edges rerank_types_subset by blast
  have 4: "\<forall>e \<in> set (data_edges store).
           (source_id e = cid \<or> target_id e = cid)
           \<and> relationship_type e \<in> set rerank_relationship_types
           \<longrightarrow> edge_key e \<in> edge_key ` set (edges ?nb)"
    unfolding find_related_chunks_edge_keys by blast
  have 5: "distinct (map edge_key (edges ?nb)) \<and> distinct (map node_id (nodes ?nb))"
    by (simp add: find_related_chunks_distinct)
  have 6: "\<forall>n \<in> set (nodes ?nb). \<exists>e \<in> set (edges ?nb).
           map_of (data_nodes store) (source_id e) = Some n
           \<or> map_of (data_nodes store) (target_id e) = Some n"
    using neighbourhood_nodes_from_edges by blast
  have 7: "\<forall>e \<in> set (edges ?nb). \<forall>n.
           map_of (data_nodes store) (source_id e) = Some n
           \<or> map_of (data_nodes store) (target_id e) = Some n
           \<longrightarrow> node_id n \<in> node_id ` set (nodes ?nb)"
    using neighbourhood_edges_bring_nodes by blast
  show ?thesis
    by (rule exI[of _ ?nb]) (intro conjI 1 2 3 4 5[THEN conjunct1] 5[THEN conjunct2] 6 7)
qed


lemmas hop_eval_defs =
  hop_reranker_def hop_store_def json_graph_client_def find_related_chunks_def
  rerank_relationship_types_def default_relationship_types_def mk_node_def mk_edge_def
  edge_key_def spec_one_hop_def Let_def

lemma hop_neighbourhood:
  "json_graph_client hop_store ''c'' rerank_relationship_types 2
     = Inr \<lparr>nodes = [mk_node ''f'' ''Function'', mk_node ''c'' ''Chunk''],
            edges = [mk_edge ''f'' ''c'' ''DEFINED_IN''],
            result_metadata = [(''query_type'', MStr ''related_chunks''), (''max_hops'', MInt 2)]\<rparr>"
  by (simp add: hop_eval_defs)

theorem rerank_neighbourhood_is_direct_witness:
  "neo4j_client hop_reranker = json_graph_client hop_store
   \<and> neo4j_client hop_reranker ''c'' rerank_relationship_types 2
       = Inr \<lparr>nodes = [mk_node ''f'' ''Function'', mk_node ''c'' ''Chunk''],
              edges = [mk_edge ''f'' ''c'' ''DEFINED_IN''],
              result_metadata = [(''query_type'', MStr ''related_chunks''), (''max_hops'', MInt 2)]\<rparr>
   \<and> mk_edge ''f'' ''c'' ''DEFINED_IN'' \<in> set (data_edges hop_store)
   \<and> map_of (data_nodes hop_store) ''f'' = Some (mk_node ''f'' ''Function'')"
proof -
  have c: "neo4j_client hop_reranker = json_graph_client hop_store"
    by (simp add: hop_reranker_def)
  have e: "mk_edge ''f'' ''c'' ''DEFINED_IN'' \<in> set (data_edges hop_store)"
    by (simp add: hop_store_def)
  have n: "map_of (data_nodes hop_store) ''f'' = Some (mk_node ''f'' ''Function'')"
    by (simp add: hop_store_def)
  show ?thesis
    using c e n hop_neighbourhood rerank_neighbourhood_is_direct [OF c, of "''c''"]
    by simp
qed

text \<open>
  Node \<open>g\<close> is two hops from chunk \<open>c\<close> (\<open>f\<close> is defined in \<open>c\<close> and \<open>f\<close> calls \<open>g\<close>)
  and is stored, but the neighbourhood of \<open>c\<close> holds only \<open>f\<close> and \<open>c\<close>.
\<close>

theorem two_hop_node_missing_counterexample:
  "''g'' \<in> set (spec_within_hops hop_store default_relationship_types 2 ''c'')
   \<and> map_of (data_nodes hop_store) ''g'' = Some (mk_node ''g'' ''Function'')
   \<and> json_graph_client hop_store ''c'' rerank_relationship_types 2
       = Inr \<lparr>nodes = [mk_node ''f'' ''Function'', mk_node ''c'' ''Chunk''],
              edges = [mk_edge ''f'' ''c'' ''DEFINED_IN''],
              result_metadata = [(''query_type'', MStr ''related_chunks''), (''max_hops'', MInt 2)]\<rparr>"
proof -
  have "spec_within_hops hop_store default_relationship_types 2 ''c'' = [''c'', ''f'', ''c'', ''g'']"
    by (simp add: numeral_2_eq_2 hop_store_def default_relationship_types_def mk_edge_def
        spec_one_hop_def)
  moreover have "map_of (data_nodes hop_store) ''g'' = Some (mk_node ''g'' ''Function'')"
    by (simp add: hop_store_def)
  ultimately show ?thesis
    using hop_neighbourhood by simp
qed

section \<open>Properties of keyword search and score fusion\<close>

lemmas fusion_eval_defs =
  combine_results_def normalize_scores_def nth_or_def combined_score_def sort_desc_def
  dict_set_def mk_result_def mk_chunk_def Let_def

text \<open>
  C2: fusing the vector list \<open>[(A, 0.9), (B, 0.1)]\<close> with weight \<open>0.6\<close> and the BM25 list
  \<open>[(B, 5), (A, 1)]\<close> with weight \<open>0.4\<close> gives \<open>A\<close> the combined score \<open>0.6\<close> and
  rank 1 and \<open>B\<close> the combined score \<open>0.4\<close> and rank 2, for every \<open>top_k\<close> of at
  least two.
\<close>

theorem fusion_scenario_ranks_A_first:
  assumes "2 \<le> top_k"
  shows "map (\<lambda>r. (chunk_id (chunk r), score r, rank r))
           (combine_results
              [mk_result ''A'' 0.9 1 ''vector'', mk_result ''B'' 0.1 2 ''vector'']
              [mk_result ''B'' 5 1 ''bm25'', mk_result ''A'' 1 2 ''bm25'']
              0.6 0.4 top_k)
         = [(''A'', 0.6, 1), (''B'', 0.4, 2)]"
  using assms by (simp add: fusion_eval_defs py_take_all)

theorem fusion_scenario_ranks_A_first_witness:
  "(2::int) \<le> 10
   \<and> map (\<lambda>r. (chunk_id (chunk r), score r, rank r))
           (combine_results
              [mk_result ''A'' 0.9 1 ''vector'', mk_result ''B'' 0.1 2 ''vector'']
              [mk_result ''B'' 5 1 ''bm25'', mk_result ''A'' 1 2 ''bm25'']
              0.6 0.4 10)
         = [(''A'', 0.6, 1), (''B'', 0.4, 2)]"
  using fusion_scenario_ranks_A_first [of 10] by simp

lemma enhance_loop_keeps:
  "map (\<lambda>r. (chunk r, score r, rank r, search_type r)) (enhance_loop client rs)
     = map (\<lambda>r. (chunk r, score r, rank r, search_type r)) rs"
  by (induction rs) (auto split: sum.splits)

lemma enhance_loop_metadata:
  "list_all2 (\<lambda>a b. metadata a = metadata b
                    \<or> (\<exists>v. metadata a = dict_set ''graph_context'' v (metadata b)))
     (enhance_loop client rs) rs"
proof (induction rs)
  case Nil
  then show ?case by simp
next
  case (Cons r rs)
  show ?case
  proof (cases "client (chunk_id (chunk r)) enhance_relationship_types 2")
    case (Inl e)
    then show ?thesis by (simp add: list_all2_refl)
  next
    case (Inr g)
    with Cons.IH show ?thesis by auto
  qed
qed

text \<open>
  C10: for every query, index, graph client and weights, \<open>HybridSearch.search\<close> with
  \<open>use_graph = True\<close> returns the same chunks with the same scores, ranks and order as
  with \<open>use_graph = False\<close>; the two result lists differ at most in the metadata, where
  the graph step sets the key \<open>graph_context\<close>. This holds for a graph client that
  raises as well.
\<close>

theorem graph_enhancement_keeps_ranking:
  "map (\<lambda>r. (chunk r, score r, rank r, search_type r))
       (HybridSearch_search self query top_k vector_weight bm25_weight True)
     = map (\<lambda>r. (chunk r, score r, rank r, search_type r))
         (HybridSearch_search self query top_k vector_weight bm25_weight False)
   \<and> list_all2 (\<lambda>a b. metadata a = metadata b
                      \<or> (\<exists>v. metadata a = dict_set ''graph_context'' v (metadata b)))
       (HybridSearch_search self query top_k vector_weight bm25_weight True)
       (HybridSearch_search self query top_k vector_weight bm25_weight False)"
  by (simp add: HybridSearch_search_def enhance_with_graph_def enhance_loop_keeps
      enhance_loop_metadata list_all2_refl Let_def)

subsection \<open>BM25 search\<close>

lemma search_loop_sound:
  "search_loop scores metas k idxs = Inr rs \<Longrightarrow>
     \<forall>r \<in> set rs. 0 < score r
        \<and> (\<exists>idx \<in> set idxs. idx < length metas \<and> score r = scores ! idx
              \<and> chunk_id (chunk r) = meta_chunk_id (metas ! idx))"
proof (induction idxs arbitrary: k rs)
  case Nil
  then show ?case by simp
next
  case (Cons idx rest)
  show ?case
  proof (cases "0 < scores ! idx")
    case False
    with Cons.prems have "search_loop scores metas (k + 1) rest = Inr rs" by simp
    from Cons.IH[OF this] show ?thesis by auto
  next
    case True
    with Cons.prems obtain rs' where rs': "idx < length metas"
      "search_loop scores metas (k + 1) rest = Inr rs'"
      "rs = bm25_result (metas ! idx) (scores ! idx) (k + 1) # rs'"
      by (auto split: if_splits sum.splits)
    from Cons.IH[OF rs'(2)] True rs'(1,3) show ?thesis
      by (auto simp: bm25_result_def)
  qed
qed

lemma search_loop_total:
  "\<forall>idx \<in> set idxs. idx < length metas \<Longrightarrow> \<exists>rs. search_loop scores metas k idxs = Inr rs"
proof (induction idxs arbitrary: k)
  case Nil
  then show ?case by simp
next
  case (Cons idx rest)
  then obtain rs where "search_loop scores metas (k + 1) rest = Inr rs" by fastforce
  with Cons.prems show ?case by simp
qed

lemma search_loop_complete:
  "search_loop scores metas k idxs = Inr rs \<Longrightarrow>
     \<forall>idx \<in> set idxs. 0 < scores ! idx
        \<longrightarrow> (\<exists>k'. bm25_result (metas ! idx) (scores ! idx) k' \<in> set rs)"
proof (induction idxs arbitrary: k rs)
  case Nil
  then show ?case by simp
next
  case (Cons idx rest)
  show ?case
  proof (cases "0 < scores ! idx")
    case False
    with Cons.prems have "search_loop scores metas (k + 1) rest = Inr rs" by simp
    from Cons.IH[OF this] False show ?thesis by auto
  next
    case True
    with Cons.prems obtain rs' where rs': "idx < length metas"
      "search_loop scores metas (k + 1) rest = Inr rs'"
      "rs = bm25_result (metas ! idx) (scores ! idx) (k + 1) # rs'"
      by (auto split: if_splits sum.splits)
    from Cons.IH[OF rs'(2)] rs'(3) show ?thesis by auto
  qed
qed

lemma argsort_set: "set (argsort scores) = {0..<length scores}"
proof -
  have m: "map snd (zip scores [0..<length scores]) = [0..<length scores]"
    by (rule map_snd_zip) simp
  have "set (argsort scores) = snd ` set (zip scores [0..<length scores])"
    by (simp add: argsort_def)
  also have "\<dots> = set (map snd (zip scores [0..<length scores]))"
    by (simp only: set_map)
  also have "\<dots> = {0..<length scores}"
    by (simp only: m set_upt)
  finally show ?thesis .
qed

lemma py_take_subset: "set (py_take k xs) \<subseteq> set xs"
  by (simp add: py_take_def set_take_subset)

lemma top_indices_in_range:
  "idx \<in> set (py_take top_k (rev (argsort scores))) \<Longrightarrow> idx < length scores"
  using py_take_subset[of top_k "rev (argsort scores)"] argsort_set[of scores] by auto

lemma top_indices_all:
  "int (length scores) \<le> top_k \<Longrightarrow> set (py_take top_k (rev (argsort scores))) = {0..<length scores}"
proof -
  assume "int (length scores) \<le> top_k"
  moreover have "length (rev (argsort scores)) = length scores" by (simp add: argsort_def)
  ultimately have "py_take top_k (rev (argsort scores)) = rev (argsort scores)"
    by (simp add: py_take_all)
  then show ?thesis by (simp add: argsort_set)
qed

subsection \<open>The scoring formula of the specification\<close>

lemma doc_frequency_le: "doc_frequency corpus t \<le> length corpus"
  by (simp add: doc_frequency_def)

lemma bm25_idf_nonneg: "0 \<le> bm25_idf corpus t"
proof -
  have "real (doc_frequency corpus t) \<le> real (length corpus)"
    using doc_frequency_le by simp
  then have "0 \<le> (real (length corpus) - real (doc_frequency corpus t) + 0.5)
                   / (real (doc_frequency corpus t) + 0.5)"
    by (intro divide_nonneg_nonneg) simp_all
  then show ?thesis
    unfolding bm25_idf_def by (intro ln_ge_zero) simp
qed

lemma avgdl_nonneg: "0 \<le> avgdl corpus"
  by (simp add: avgdl_def)

lemma bm25_term_score_nonneg:
  assumes "0 \<le> k1" "0 \<le> b" "b \<le> 1"
  shows "0 \<le> bm25_term_score k1 b corpus t d"
proof -
  have "0 \<le> b * real (length d) / avgdl corpus"
    using assms(2) avgdl_nonneg by (intro divide_nonneg_nonneg mult_nonneg_nonneg) simp_all
  then have "0 \<le> 1 - b + b * real (length d) / avgdl corpus"
    using assms(3) by simp
  then have "0 \<le> k1 * (1 - b + b * real (length d) / avgdl corpus)"
    using assms(1) by (rule mult_nonneg_nonneg[rotated])
  then have den: "0 \<le> real (count_list d t) + k1 * (1 - b + b * real (length d) / avgdl corpus)"
    by simp
  have num: "0 \<le> bm25_idf corpus t * (real (count_list d t) * (k1 + 1))"
    using assms(1) bm25_idf_nonneg by (intro mult_nonneg_nonneg) simp_all
  show ?thesis
    unfolding bm25_term_score_def using num den by (rule divide_nonneg_nonneg)
qed

lemma bm25_doc_score_nonneg:
  assumes "0 \<le> k1" "0 \<le> b" "b \<le> 1"
  shows "0 \<le> bm25_doc_score k1 b corpus query_tokens d"
  unfolding bm25_doc_score_def
  by (rule sum_list_nonneg) (auto simp: bm25_term_score_nonneg[OF assms])


lemma index_chunks_lengths:
  "chunks \<noteq> [] \<Longrightarrow>
     \<exists>get_scores. bm25_index (BM25Search_index_chunks self chunks) = Some get_scores
       \<and> length (get_scores q) = length (bm25_chunk_metadata (BM25Search_index_chunks self chunks))"
  by (simp add: BM25Search_index_chunks_def BM25Okapi_get_scores_def Let_def)

lemma search_returns:
  assumes "bm25_index self = Some get_scores"
    and "length (get_scores (preprocess_text query)) \<le> length (bm25_chunk_metadata self)"
  shows "\<exists>results. BM25Search_search self query top_k = Inr results"
proof -
  let ?scores = "get_scores (preprocess_text query)"
  have "\<forall>idx \<in> set (py_take top_k (rev (argsort ?scores))). idx < length (bm25_chunk_metadata self)"
    using top_indices_in_range[of _ top_k ?scores] assms(2) by fastforce
  from search_loop_total[OF this, of ?scores 0] show ?thesis
    by (simp add: BM25Search_search_def assms(1) Let_def)
qed

lemma search_sound:
  assumes "bm25_index self = Some get_scores"
    and "BM25Search_search self query top_k = Inr results"
    and "r \<in> set results"
  shows "0 < score r
     \<and> (\<exists>idx < length (get_scores (preprocess_text query)).
           0 < get_scores (preprocess_text query) ! idx
           \<and> score r = get_scores (preprocess_text query) ! idx
           \<and> chunk_id (chunk r) = meta_chunk_id (bm25_chunk_metadata self ! idx))"
proof -
  let ?scores = "get_scores (preprocess_text query)"
  have loop: "search_loop ?scores (bm25_chunk_metadata self) 0 (py_take top_k (rev (argsort ?scores)))
          = Inr results"
    using assms(1,2) by (simp add: BM25Search_search_def Let_def)
  from search_loop_sound[OF loop] assms(3) obtain idx where
    idx: "0 < score r" "idx \<in> set (py_take top_k (rev (argsort ?scores)))"
      "score r = ?scores ! idx"
      "chunk_id (chunk r) = meta_chunk_id (bm25_chunk_metadata self ! idx)"
    by blast
  from top_indices_in_range[OF idx(2)] idx show ?thesis by auto
qed

lemma search_positive:
  assumes "BM25Search_search self query top_k = Inr results" "r \<in> set results"
  shows "0 < score r"
proof (cases "bm25_index self")
  case None
  with assms show ?thesis by (simp add: BM25Search_search_def)
next
  case (Some get_scores)
  from search_sound[OF Some assms] show ?thesis by simp
qed

lemma search_complete:
  assumes "bm25_index self = Some get_scores"
    and "BM25Search_search self query top_k = Inr results"
    and "int (length (get_scores (preprocess_text query))) \<le> top_k"
    and "idx < length (get_scores (preprocess_text query))"
    and "0 < get_scores (preprocess_text query) ! idx"
  shows "\<exists>k'. bm25_result (bm25_chunk_metadata self ! idx)
                (get_scores (preprocess_text query) ! idx) k' \<in> set results"
proof -
  let ?scores = "get_scores (preprocess_text query)"
  have loop: "search_loop ?scores (bm25_chunk_metadata self) 0 (py_take top_k (rev (argsort ?scores)))
          = Inr results"
    using assms(1,2) by (simp add: BM25Search_search_def Let_def)
  have "idx \<in> set (py_take top_k (rev (argsort ?scores)))"
    using top_indices_all[OF assms(3)] assms(4) by simp
  with search_loop_complete[OF loop] assms(5) show ?thesis by blast
qed

text \<open>
  C9: every result returned by \<open>BM25Search.search\<close> has a strictly positive score: a
  document whose score is not positive is left out of the result list, and when
  \<open>top_k\<close> covers the corpus every document with a positive score is in it. With the
  scoring formula of the specification a document that contains a query term has a
  non-negative score, for \<open>k1 \<ge> 0\<close> and \<open>0 \<le> b \<le> 1\<close> (the defaults are 1.2 and 0.75).
\<close>

theorem bm25_results_positive:
  "(BM25Search_search self query top_k = Inr results \<longrightarrow> (\<forall>r \<in> set results. 0 < score r))
   \<and> (bm25_index self = Some get_scores
        \<and> length (get_scores (preprocess_text query)) \<le> length (bm25_chunk_metadata self)
        \<longrightarrow> (\<exists>found. BM25Search_search self query top_k = Inr found
              \<and> (\<forall>r \<in> set found. \<exists>idx < length (get_scores (preprocess_text query)).
                     0 < get_scores (preprocess_text query) ! idx
                     \<and> score r = get_scores (preprocess_text query) ! idx
                     \<and> chunk_id (chunk r) = meta_chunk_id (bm25_chunk_metadata self ! idx))
              \<and> (int (length (get_scores (preprocess_text query))) \<le> top_k
                    \<longrightarrow> (\<forall>idx < length (get_scores (preprocess_text query)).
                           0 < get_scores (preprocess_text query) ! idx
                           \<longrightarrow> (\<exists>k'. bm25_result (bm25_chunk_metadata self ! idx)
                                        (get_scores (preprocess_text query) ! idx) k'
                                      \<in> set found)))))
   \<and> (chunks \<noteq> []
        \<longrightarrow> (\<exists>found. BM25Search_search (BM25Search_index_chunks self chunks) query top_k = Inr found
              \<and> (\<forall>r \<in> set found. 0 < score r)))
   \<and> (0 \<le> k1 \<and> 0 \<le> b \<and> b \<le> 1 \<and> d \<in> set corpus \<and> t \<in> set query_tokens \<and> 0 < count_list d t
        \<longrightarrow> 0 \<le> bm25_doc_score k1 b corpus query_tokens d)"
proof (intro conjI impI)
  assume "BM25Search_search self query top_k = Inr results"
  then show "\<forall>r \<in> set results. 0 < score r"
    using search_positive by blast
next
  assume a: "bm25_index self = Some get_scores
        \<and> length (get_scores (preprocess_text query)) \<le> length (bm25_chunk_metadata self)"
  then obtain found where f: "BM25Search_search self query top_k = Inr found"
    using search_returns by blast
  show "\<exists>found. BM25Search_search self query top_k = Inr found
              \<and> (\<forall>r \<in> set found. \<exists>idx < length (get_scores (preprocess_text query)).
                     0 < get_scores (preprocess_text query) ! idx
                     \<and> score r = get_scores (preprocess_text query) ! idx
                     \<and> chunk_id (chunk r) = meta_chunk_id (bm25_chunk_metadata self ! idx))
              \<and> (int (length (get_scores (preprocess_text query))) \<le> top_k
                    \<longrightarrow> (\<forall>idx < length (get_scores (preprocess_text query)).
                           0 < get_scores (preprocess_text query) ! idx
                           \<longrightarrow> (\<exists>k'. bm25_result (bm25_chunk_metadata self ! idx)
                                        (get_scores (preprocess_text query) ! idx) k'
                                      \<in> set found)))"
  proof (intro exI[of _ found] conjI ballI impI allI)
    show "BM25Search_search self query top_k = Inr found" by (rule f)
  next
    fix r assume "r \<in> set found"
    from search_sound[OF conjunct1[OF a] f this]
    show "\<exists>idx < length (get_scores (preprocess_text query)).
                     0 < get_scores (preprocess_text query) ! idx
                     \<and> score r = get_scores (preprocess_text query) ! idx
                     \<and> chunk_id (chunk r) = meta_chunk_id (bm25_chunk_metadata self ! idx)"
      by simp
  next
    fix idx
    assume "int (length (get_scores (preprocess_text query))) \<le> top_k"
      "idx < length (get_scores (preprocess_text query))"
      "0 < get_scores (preprocess_text query) ! idx"
    from search_complete[OF conjunct1[OF a] f this]
    show "\<exists>k'. bm25_result (bm25_chunk_metadata self ! idx)
                  (get_scores (preprocess_text query) ! idx) k' \<in> set found" .
  qed
next
  assume "chunks \<noteq> []"
  from index_chunks_lengths[OF this, of self "preprocess_text query"] obtain get_scores where
    g: "bm25_index (BM25Search_index_chunks self chunks) = Some get_scores"
      "length (get_scores (preprocess_text query))
         = length (bm25_chunk_metadata (BM25Search_index_chunks self chunks))"
    by blast
  then obtain found where
    "BM25Search_search (BM25Search_index_chunks self chunks) query top_k = Inr found"
    using search_returns[of "BM25Search_index_chunks self chunks" get_scores query top_k] by auto
  then show "\<exists>found. BM25Search_search (BM25Search_index_chunks self chunks) query top_k = Inr found
              \<and> (\<forall>r \<in> set found. 0 < score r)"
    using search_positive by blast
next
  assume "0 \<le> k1 \<and> 0 \<le> b \<and> b \<le> 1 \<and> d \<in> set corpus \<and> t \<in> set query_tokens \<and> 0 < count_list d t"
  then show "0 \<le> bm25_doc_score k1 b corpus query_tokens d"
    by (simp add: bm25_doc_score_nonneg)
qed

lemma preprocess_hello: "preprocess_text ''hello'' = [''hello'']"
  by (simp add: preprocess_text_def str_lower_def char_lower_def is_word_char_def is_space_def
      py_split_def Let_def)

lemma example_bm25_search:
  "BM25Search_search example_bm25 ''hello'' 10 = Inr [bm25_result (mk_meta ''B'') 2 1]"
  by (simp add: BM25Search_search_def example_bm25_def fixed_scores_def argsort_def py_take_def
      Let_def)

theorem bm25_results_positive_witness:
  "BM25Search_search example_bm25 ''hello'' 10 = Inr [bm25_result (mk_meta ''B'') 2 1]
   \<and> bm25_index example_bm25 = Some fixed_scores
   \<and> length (fixed_scores (preprocess_text ''hello'')) \<le> length (bm25_chunk_metadata example_bm25)
   \<and> int (length (fixed_scores (preprocess_text ''hello''))) \<le> 10
   \<and> [mk_chunk ''c1''] \<noteq> []
   \<and> (0::real) \<le> 1.2 \<and> (0::real) \<le> 0.75 \<and> (0.75::real) \<le> 1
   \<and> [''def'', ''hello''] \<in> set example_corpus \<and> ''hello'' \<in> set [''hello'']
   \<and> 0 < count_list [''def'', ''hello''] ''hello''
   \<and> 0 < score (bm25_result (mk_meta ''B'') 2 1)
   \<and> 0 \<le> bm25_doc_score 1.2 0.75 example_corpus [''hello''] [''def'', ''hello'']"
proof -
  have i: "bm25_index example_bm25 = Some fixed_scores"
    by (simp add: example_bm25_def)
  have l: "length (fixed_scores (preprocess_text ''hello'')) \<le> length (bm25_chunk_metadata example_bm25)"
    by (simp add: example_bm25_def fixed_scores_def)
  have k: "int (length (fixed_scores (preprocess_text ''hello''))) \<le> 10"
    by (simp add: fixed_scores_def)
  have c: "[''def'', ''hello''] \<in> set example_corpus"
    by (simp add: example_corpus_def)
  have n: "0 < count_list [''def'', ''hello''] ''hello''"
    by simp
  note inst = bm25_results_positive [of example_bm25 "''hello''" 10 "[bm25_result (mk_meta ''B'') 2 1]"
      fixed_scores "[mk_chunk ''c1'']" "1.2" "0.75" "[''def'', ''hello'']" example_corpus
      "''hello''" "[''hello'']"]
  have "\<forall>r \<in> set [bm25_result (mk_meta ''B'') 2 1]. 0 < score r"
    using inst example_bm25_search by blast
  then have p: "0 < score (bm25_result (mk_meta ''B'') 2 1)"
    by simp
  have s: "0 \<le> bm25_doc_score 1.2 0.75 example_corpus [''hello''] [''def'', ''hello'']"
    using inst c n by simp
  show ?thesis
    using example_bm25_search i l k c n p s by simp
qed

lemma ranking_of_tuple:
  "ranking_of rs = map (\<lambda>(c, s, k, t). (chunk_id c, s, k))
                     (map (\<lambda>r. (chunk r, score r, rank r, search_type r)) rs)"
  by (simp add: ranking_of_def)

lemma example_search_plain:
  "ranking_of (HybridSearch_search example_search ''hello'' 10 0.6 0.4 False)
     = [(''A'', 0.6, 1), (''B'', 0.2, 2)]"
  by (simp add: ranking_of_def HybridSearch_search_def example_search_def vector_search_def
      example_vector_backend_def hybrid_bm25_search_def example_bm25_search fill_from_cache_def
      bm25_result_def mk_meta_def fusion_eval_defs py_take_def)

theorem graph_enhancement_keeps_ranking_witness:
  "ranking_of (HybridSearch_search example_search ''hello'' 10 0.6 0.4 True)
     = [(''A'', 0.6, 1), (''B'', 0.2, 2)]
   \<and> ranking_of (HybridSearch_search example_search ''hello'' 10 0.6 0.4 False)
     = [(''A'', 0.6, 1), (''B'', 0.2, 2)]
   \<and> ranking_of (HybridSearch_search (example_search\<lparr>hs_graph_client := failing_client\<rparr>)
        ''hello'' 10 0.6 0.4 True)
     = ranking_of (HybridSearch_search (example_search\<lparr>hs_graph_client := failing_client\<rparr>)
        ''hello'' 10 0.6 0.4 False)"
proof -
  have "ranking_of (HybridSearch_search example_search ''hello'' 10 0.6 0.4 True)
     = ranking_of (HybridSearch_search example_search ''hello'' 10 0.6 0.4 False)"
    unfolding ranking_of_tuple
    using graph_enhancement_keeps_ranking [of example_search "''hello''" 10 "0.6" "0.4"]
    by simp
  moreover have "ranking_of (HybridSearch_search (example_search\<lparr>hs_graph_client := failing_client\<rparr>)
        ''hello'' 10 0.6 0.4 True)
     = ranking_of (HybridSearch_search (example_search\<lparr>hs_graph_client := failing_client\<rparr>)
        ''hello'' 10 0.6 0.4 False)"
    unfolding ranking_of_tuple
    using graph_enhancement_keeps_ranking
      [of "example_search\<lparr>hs_graph_client := failing_client\<rparr>" "''hello''" 10 "0.6" "0.4"]
    by simp
  ultimately show ?thesis
    using example_search_plain by simp
qed

section \<open>Properties of the extractor\<close>











lemma class_step_function_definitions:
  assumes "class_step file_node cap cs = Inr cs'"
  shows "function_definitions (snd cs') = function_definitions (snd cs)"
  using assms
  unfolding class_step_def Let_def superclass_step_def
  by (auto split: if_splits option.splits prod.splits)










text \<open>
  C1 (the code departs from it): on the file that defines \<open>hello\<close> and \<open>main\<close>, where \<open>main\<close> calls \<open>hello\<close>, the
  extraction finds the nodes \<open>hello\<close> (id 1) and \<open>main\<close> (id 2) and one CALLS edge from
  \<open>main\<close> to \<open>hello\<close>; \<open>build_graph_for_file\<close> returns that relationship list extended
  by itself, so its result holds the CALLS edge from \<open>main\<close> to \<open>hello\<close> twice.
\<close>

theorem build_graph_for_file_repeats_calls_edge:
  "calls_of (extraction_of ''corpus.py'' hello_main_tree) = [(2, 1)]
   \<and> labelled (build_graph_for_file ''corpus.py'' ''corpus.py'' ''.py'' (Some hello_main_tree) 0)
       = [(0, ''File'', ''corpus.py''), (1, ''Function'', ''hello''), (2, ''Function'', ''main'')]
   \<and> calls_of (build_graph_for_file ''corpus.py'' ''corpus.py'' ''.py'' (Some hello_main_tree) 0)
       = [(2, 1), (2, 1)]"
  by (simp add: calls_of_def labelled_def extraction_of_def file_node_of_def
        build_graph_for_file_def get_language_from_extension_def
        extract_entities_and_relations_def pass1_def calls_pass_def call_step_def call_edge_def
        hello_main_tree_def ts_node_def function_step_def Let_def dict_get_def
        mk_relationship_def)




end
